theory Spec2Isabelle
  imports Main "HOL-Library.DAList" "HOL-Library.Word"
begin

section \<open>Values shared by all packages\<close>

text \<open>
  A Go \<^verbatim>\<open>string\<close> is a sequence of bytes and \<^verbatim>\<open>len\<close> counts bytes; so does
  \<^term>\<open>length\<close> on a HOL \<^typ>\<open>string\<close>. A \<^verbatim>\<open>time.Time\<close> is an instant, here the
  number of nanoseconds since the zero time; \<^verbatim>\<open>time.Now()\<close> is read from the
  environment, so every operation that calls it takes the reading as its first argument.
\<close>

type_synonym time = int

definition IsZero :: "time \<Rightarrow> bool" where
  "IsZero t = (t = 0)"

text \<open>
  Errors. Each package-level \<^verbatim>\<open>errors.New\<close> variable is a value of its own (two
  sentinels with the same text, one in package repository and one in package service,
  are different errors), an error made by \<^verbatim>\<open>errors.New\<close> inside \<^verbatim>\<open>Validate\<close> carries
  its text, and \<^verbatim>\<open>fmt.Errorf("%w: %v", e, cause)\<close> wraps \<^verbatim>\<open>e\<close>.
\<close>

datatype error =
    repository_ErrBookNotFound
  | repository_ErrBookExists
  | repository_ErrAuthorNotFound
  | repository_ErrAuthorExists
  | repository_ErrReadingListNotFound
  | repository_ErrReadingListExists
  | service_ErrInvalidBook
  | service_ErrBookNotFound
  | service_ErrDuplicateISBN
  | service_ErrInvalidAuthor
  | service_ErrAuthorNotFound
  | service_ErrInvalidReadingList
  | service_ErrReadingListNotFound
  | service_ErrBookAlreadyInList
  | service_ErrBookNotInList
  | errors_New string
  | fmt_Errorf error error

fun Error :: "error \<Rightarrow> string" where
  "Error repository_ErrBookNotFound = ''book not found''"
| "Error repository_ErrBookExists = ''book already exists''"
| "Error repository_ErrAuthorNotFound = ''author not found''"
| "Error repository_ErrAuthorExists = ''author already exists''"
| "Error repository_ErrReadingListNotFound = ''reading list not found''"
| "Error repository_ErrReadingListExists = ''reading list already exists''"
| "Error service_ErrInvalidBook = ''invalid book data''"
| "Error service_ErrBookNotFound = ''book not found''"
| "Error service_ErrDuplicateISBN = ''book with this ISBN already exists''"
| "Error service_ErrInvalidAuthor = ''invalid author data''"
| "Error service_ErrAuthorNotFound = ''author not found''"
| "Error service_ErrInvalidReadingList = ''invalid reading list data''"
| "Error service_ErrReadingListNotFound = ''reading list not found''"
| "Error service_ErrBookAlreadyInList = ''book already in reading list''"
| "Error service_ErrBookNotInList = ''book not in reading list''"
| "Error (errors_New msg) = msg"
| "Error (fmt_Errorf e cause) = Error e @ '': '' @ Error cause"

text \<open>\<^verbatim>\<open>errors.Is\<close>: the error itself, or any error it wraps, is the target.\<close>

fun errors_Is :: "error \<Rightarrow> error \<Rightarrow> bool" where
  "errors_Is (fmt_Errorf e cause) target =
     (fmt_Errorf e cause = target \<or> errors_Is e target)"
| "errors_Is err target = (err = target)"

section \<open>Package model\<close>

subsection \<open>Book\<close>

record Book =
  ID :: string
  Title :: string
  ISBN :: string
  AuthorID :: string
  PublishedAt :: time
  Pages :: "64 word"
  Genre :: string
  CreatedAt :: time
  UpdatedAt :: time

definition Book_Validate :: "Book \<Rightarrow> error option" where
  "Book_Validate b =
     (if Title b = [] then Some (errors_New ''title is required'')
      else if length (Title b) > 200 then
        Some (errors_New ''title must be 200 characters or less'')
      else if ISBN b = [] then Some (errors_New ''isbn is required'')
      else if AuthorID b = [] then Some (errors_New ''author_id is required'')
      else if sint (Pages b) < 0 then Some (errors_New ''pages cannot be negative'')
      else None)"

subsection \<open>Author\<close>

record Author =
  ID :: string
  Name :: string
  Bio :: string
  BirthDate :: time
  Country :: string
  CreatedAt :: time
  UpdatedAt :: time

definition Author_Validate :: "Author \<Rightarrow> error option" where
  "Author_Validate a =
     (if Author.Name a = [] then Some (errors_New ''name is required'')
      else if length (Author.Name a) > 100 then
        Some (errors_New ''name must be 100 characters or less'')
      else if length (Bio a) > 2000 then
        Some (errors_New ''bio must be 2000 characters or less'')
      else None)"

subsection \<open>ReadingList\<close>

record ReadingList =
  ID :: string
  Name :: string
  Description :: string
  BookIDs :: "string list"
  CreatedAt :: time
  UpdatedAt :: time

definition ReadingList_Validate :: "ReadingList \<Rightarrow> error option" where
  "ReadingList_Validate r =
     (if ReadingList.Name r = [] then Some (errors_New ''name is required'')
      else if length (ReadingList.Name r) > 100 then
        Some (errors_New ''name must be 100 characters or less'')
      else if length (Description r) > 500 then
        Some (errors_New ''description must be 500 characters or less'')
      else None)"

text \<open>
  The three membership loops range over \<^verbatim>\<open>r.BookIDs\<close> from the front.
  \<open>ContainsBook\<close> answers whether the id occurs; \<open>RemoveBook_index\<close> is the loop of
  \<^verbatim>\<open>RemoveBook\<close>, which stops at the first index holding the id.
\<close>

fun ContainsBook_loop :: "string list \<Rightarrow> string \<Rightarrow> bool" where
  "ContainsBook_loop [] bookID = False"
| "ContainsBook_loop (bid # ids) bookID =
     (if bid = bookID then True else ContainsBook_loop ids bookID)"

definition ReadingList_ContainsBook :: "ReadingList \<Rightarrow> string \<Rightarrow> bool" where
  "ReadingList_ContainsBook r bookID = ContainsBook_loop (BookIDs r) bookID"

text \<open>
  \<^verbatim>\<open>AddBook\<close> and \<^verbatim>\<open>RemoveBook\<close> have a pointer receiver: they return their
  boolean together with the receiver as they leave it.
\<close>

fun AddBook_loop :: "string list \<Rightarrow> string \<Rightarrow> bool" where
  "AddBook_loop [] bookID = False"
| "AddBook_loop (bid # ids) bookID =
     (if bid = bookID then True else AddBook_loop ids bookID)"

definition ReadingList_AddBook :: "ReadingList \<Rightarrow> string \<Rightarrow> bool \<times> ReadingList" where
  "ReadingList_AddBook r bookID =
     (if AddBook_loop (BookIDs r) bookID then (False, r)
      else (True, r\<lparr>BookIDs := BookIDs r @ [bookID]\<rparr>))"

fun RemoveBook_index :: "string list \<Rightarrow> string \<Rightarrow> nat \<Rightarrow> nat option" where
  "RemoveBook_index [] bookID i = None"
| "RemoveBook_index (bid # ids) bookID i =
     (if bid = bookID then Some i else RemoveBook_index ids bookID (Suc i))"

definition ReadingList_RemoveBook :: "ReadingList \<Rightarrow> string \<Rightarrow> bool \<times> ReadingList" where
  "ReadingList_RemoveBook r bookID =
     (case RemoveBook_index (BookIDs r) bookID 0 of
        Some i \<Rightarrow> (True, r\<lparr>BookIDs := take i (BookIDs r) @ drop (i + 1) (BookIDs r)\<rparr>)
      | None \<Rightarrow> (False, r))"

section \<open>Package repository\<close>

text \<open>
  A repository holds a Go map from identifier to entity behind a lock. The map is a
  finite map with one entry per key: an association list with distinct keys. The
  listing order of \<open>List\<close> is the order of that list; Go leaves the iteration order
  of a map open, and no result below depends on it. Entities are stored and returned
  by value (the source copies on every read and write), so the model never shares a
  stored entity with a caller. A method that writes through its pointer argument
  returns the argument as it leaves it, next to the error and the repository.
\<close>

subsection \<open>BookRepository\<close>

record BookRepository =
  books :: "(string, Book) alist"

definition NewBookRepository :: "BookRepository" where
  "NewBookRepository = \<lparr>books = DAList.empty\<rparr>"

definition BookRepository_Create ::
  "time \<Rightarrow> Book \<Rightarrow> BookRepository \<Rightarrow> error option \<times> Book \<times> BookRepository" where
  "BookRepository_Create now book r =
     (case DAList.lookup (books r) (Book.ID book) of
        Some existing \<Rightarrow> (Some repository_ErrBookExists, book, r)
      | None \<Rightarrow>
          (let book' = book\<lparr>Book.CreatedAt := now, Book.UpdatedAt := now\<rparr>;
               stored = book'
           in (None, book', r\<lparr>books := DAList.update (Book.ID book') stored (books r)\<rparr>)))"

definition BookRepository_Get :: "BookRepository \<Rightarrow> string \<Rightarrow> error + Book" where
  "BookRepository_Get r bid =
     (case DAList.lookup (books r) bid of
        None \<Rightarrow> Inl repository_ErrBookNotFound
      | Some book \<Rightarrow> Inr book)"

definition BookRepository_Update ::
  "time \<Rightarrow> Book \<Rightarrow> BookRepository \<Rightarrow> error option \<times> Book \<times> BookRepository" where
  "BookRepository_Update now book r =
     (case DAList.lookup (books r) (Book.ID book) of
        None \<Rightarrow> (Some repository_ErrBookNotFound, book, r)
      | Some existing \<Rightarrow>
          (let book' = book\<lparr>Book.CreatedAt := Book.CreatedAt existing, Book.UpdatedAt := now\<rparr>;
               stored = book'
           in (None, book', r\<lparr>books := DAList.update (Book.ID book') stored (books r)\<rparr>)))"

definition BookRepository_Delete ::
  "string \<Rightarrow> BookRepository \<Rightarrow> error option \<times> BookRepository" where
  "BookRepository_Delete bid r =
     (case DAList.lookup (books r) bid of
        None \<Rightarrow> (Some repository_ErrBookNotFound, r)
      | Some existing \<Rightarrow> (None, r\<lparr>books := DAList.delete bid (books r)\<rparr>))"

definition BookRepository_List :: "BookRepository \<Rightarrow> Book list" where
  "BookRepository_List r = map snd (DAList.impl_of (books r))"

definition BookRepository_FindByAuthor :: "BookRepository \<Rightarrow> string \<Rightarrow> Book list" where
  "BookRepository_FindByAuthor r authorID =
     filter (\<lambda>book. AuthorID book = authorID) (map snd (DAList.impl_of (books r)))"

definition BookRepository_Count :: "BookRepository \<Rightarrow> nat" where
  "BookRepository_Count r = length (DAList.impl_of (books r))"

subsection \<open>AuthorRepository\<close>

record AuthorRepository =
  authors :: "(string, Author) alist"

definition NewAuthorRepository :: "AuthorRepository" where
  "NewAuthorRepository = \<lparr>authors = DAList.empty\<rparr>"

definition AuthorRepository_Create ::
  "time \<Rightarrow> Author \<Rightarrow> AuthorRepository \<Rightarrow> error option \<times> Author \<times> AuthorRepository" where
  "AuthorRepository_Create now author r =
     (case DAList.lookup (authors r) (Author.ID author) of
        Some existing \<Rightarrow> (Some repository_ErrAuthorExists, author, r)
      | None \<Rightarrow>
          (let author' = author\<lparr>Author.CreatedAt := now, Author.UpdatedAt := now\<rparr>;
               stored = author'
           in (None, author',
               r\<lparr>authors := DAList.update (Author.ID author') stored (authors r)\<rparr>)))"

definition AuthorRepository_Get :: "AuthorRepository \<Rightarrow> string \<Rightarrow> error + Author" where
  "AuthorRepository_Get r aid =
     (case DAList.lookup (authors r) aid of
        None \<Rightarrow> Inl repository_ErrAuthorNotFound
      | Some author \<Rightarrow> Inr author)"

definition AuthorRepository_Update ::
  "time \<Rightarrow> Author \<Rightarrow> AuthorRepository \<Rightarrow> error option \<times> Author \<times> AuthorRepository" where
  "AuthorRepository_Update now author r =
     (case DAList.lookup (authors r) (Author.ID author) of
        None \<Rightarrow> (Some repository_ErrAuthorNotFound, author, r)
      | Some existing \<Rightarrow>
          (let author' = author\<lparr>Author.CreatedAt := Author.CreatedAt existing,
                                 Author.UpdatedAt := now\<rparr>;
               stored = author'
           in (None, author',
               r\<lparr>authors := DAList.update (Author.ID author') stored (authors r)\<rparr>)))"

definition AuthorRepository_Delete ::
  "string \<Rightarrow> AuthorRepository \<Rightarrow> error option \<times> AuthorRepository" where
  "AuthorRepository_Delete aid r =
     (case DAList.lookup (authors r) aid of
        None \<Rightarrow> (Some repository_ErrAuthorNotFound, r)
      | Some existing \<Rightarrow> (None, r\<lparr>authors := DAList.delete aid (authors r)\<rparr>))"

definition AuthorRepository_List :: "AuthorRepository \<Rightarrow> Author list" where
  "AuthorRepository_List r = map snd (DAList.impl_of (authors r))"

definition AuthorRepository_FindByCountry :: "AuthorRepository \<Rightarrow> string \<Rightarrow> Author list" where
  "AuthorRepository_FindByCountry r country =
     filter (\<lambda>author. Country author = country) (map snd (DAList.impl_of (authors r)))"

definition AuthorRepository_Count :: "AuthorRepository \<Rightarrow> nat" where
  "AuthorRepository_Count r = length (DAList.impl_of (authors r))"

subsection \<open>ReadingListRepository\<close>

text \<open>
  The reading-list repository also copies the \<^verbatim>\<open>BookIDs\<close> slice element by element
  on every read and write; a HOL list is a value, so the copy is the list itself. A nil
  slice and an empty slice are both the empty list.
\<close>

record ReadingListRepository =
  lists :: "(string, ReadingList) alist"

definition NewReadingListRepository :: "ReadingListRepository" where
  "NewReadingListRepository = \<lparr>lists = DAList.empty\<rparr>"

definition ReadingListRepository_Create ::
  "time \<Rightarrow> ReadingList \<Rightarrow> ReadingListRepository
     \<Rightarrow> error option \<times> ReadingList \<times> ReadingListRepository" where
  "ReadingListRepository_Create now list r =
     (case DAList.lookup (lists r) (ReadingList.ID list) of
        Some existing \<Rightarrow> (Some repository_ErrReadingListExists, list, r)
      | None \<Rightarrow>
          (let list' = list\<lparr>ReadingList.CreatedAt := now, ReadingList.UpdatedAt := now\<rparr>;
               stored = list'\<lparr>BookIDs := BookIDs list'\<rparr>
           in (None, list',
               r\<lparr>lists := DAList.update (ReadingList.ID list') stored (lists r)\<rparr>)))"

definition ReadingListRepository_Get ::
  "ReadingListRepository \<Rightarrow> string \<Rightarrow> error + ReadingList" where
  "ReadingListRepository_Get r lid =
     (case DAList.lookup (lists r) lid of
        None \<Rightarrow> Inl repository_ErrReadingListNotFound
      | Some list \<Rightarrow> Inr (list\<lparr>BookIDs := BookIDs list\<rparr>))"

definition ReadingListRepository_Update ::
  "time \<Rightarrow> ReadingList \<Rightarrow> ReadingListRepository
     \<Rightarrow> error option \<times> ReadingList \<times> ReadingListRepository" where
  "ReadingListRepository_Update now list r =
     (case DAList.lookup (lists r) (ReadingList.ID list) of
        None \<Rightarrow> (Some repository_ErrReadingListNotFound, list, r)
      | Some existing \<Rightarrow>
          (let list' = list\<lparr>ReadingList.CreatedAt := ReadingList.CreatedAt existing,
                             ReadingList.UpdatedAt := now\<rparr>;
               stored = list'\<lparr>BookIDs := BookIDs list'\<rparr>
           in (None, list',
               r\<lparr>lists := DAList.update (ReadingList.ID list') stored (lists r)\<rparr>)))"

definition ReadingListRepository_Delete ::
  "string \<Rightarrow> ReadingListRepository \<Rightarrow> error option \<times> ReadingListRepository" where
  "ReadingListRepository_Delete lid r =
     (case DAList.lookup (lists r) lid of
        None \<Rightarrow> (Some repository_ErrReadingListNotFound, r)
      | Some existing \<Rightarrow> (None, r\<lparr>lists := DAList.delete lid (lists r)\<rparr>))"

definition ReadingListRepository_List :: "ReadingListRepository \<Rightarrow> ReadingList list" where
  "ReadingListRepository_List r = map snd (DAList.impl_of (lists r))"

definition ReadingListRepository_FindByBook ::
  "ReadingListRepository \<Rightarrow> string \<Rightarrow> ReadingList list" where
  "ReadingListRepository_FindByBook r bookID =
     filter (\<lambda>list. ReadingList_ContainsBook list bookID) (map snd (DAList.impl_of (lists r)))"

definition ReadingListRepository_Count :: "ReadingListRepository \<Rightarrow> nat" where
  "ReadingListRepository_Count r = length (DAList.impl_of (lists r))"

section \<open>Package service\<close>

text \<open>
  A service holds pointers to its repositories; its state is the state of those
  repositories. Every method returns the error (\<open>None\<close> for nil) and the service
  as the call leaves it, and a method with a pointer argument also the argument.
\<close>

subsection \<open>BookService\<close>

record BookService =
  repo :: BookRepository

definition NewBookService :: "BookRepository \<Rightarrow> BookService" where
  "NewBookService r = \<lparr>repo = r\<rparr>"

fun CreateBook_loop :: "Book list \<Rightarrow> Book \<Rightarrow> bool" where
  "CreateBook_loop [] book = False"
| "CreateBook_loop (existing # rest) book =
     (if ISBN existing = ISBN book then True else CreateBook_loop rest book)"

definition BookService_CreateBook ::
  "time \<Rightarrow> Book \<Rightarrow> BookService \<Rightarrow> error option \<times> Book \<times> BookService" where
  "BookService_CreateBook now book s =
     (case Book_Validate book of
        Some err \<Rightarrow> (Some (fmt_Errorf service_ErrInvalidBook err), book, s)
      | None \<Rightarrow>
          (let existingBooks = BookRepository_List (BookService.repo s)
           in if CreateBook_loop existingBooks book then (Some service_ErrDuplicateISBN, book, s)
              else (case BookRepository_Create now book (BookService.repo s) of
                      (Some err, book', r') \<Rightarrow> (Some err, book', s\<lparr>BookService.repo := r'\<rparr>)
                    | (None, book', r') \<Rightarrow> (None, book', s\<lparr>BookService.repo := r'\<rparr>))))"

definition BookService_GetBook :: "BookService \<Rightarrow> string \<Rightarrow> error + Book" where
  "BookService_GetBook s bid =
     (case BookRepository_Get (BookService.repo s) bid of
        Inl err \<Rightarrow>
          (if errors_Is err repository_ErrBookNotFound then Inl service_ErrBookNotFound
           else Inl err)
      | Inr book \<Rightarrow> Inr book)"

fun UpdateBook_loop :: "Book list \<Rightarrow> Book \<Rightarrow> bool" where
  "UpdateBook_loop [] book = False"
| "UpdateBook_loop (existing # rest) book =
     (if ISBN existing = ISBN book \<and> Book.ID existing \<noteq> Book.ID book then True
      else UpdateBook_loop rest book)"

definition BookService_UpdateBook ::
  "time \<Rightarrow> Book \<Rightarrow> BookService \<Rightarrow> error option \<times> Book \<times> BookService" where
  "BookService_UpdateBook now book s =
     (case Book_Validate book of
        Some err \<Rightarrow> (Some (fmt_Errorf service_ErrInvalidBook err), book, s)
      | None \<Rightarrow>
          (let existingBooks = BookRepository_List (BookService.repo s)
           in if UpdateBook_loop existingBooks book then (Some service_ErrDuplicateISBN, book, s)
              else (case BookRepository_Update now book (BookService.repo s) of
                      (Some err, book', r') \<Rightarrow>
                        (if errors_Is err repository_ErrBookNotFound
                         then (Some service_ErrBookNotFound, book', s\<lparr>BookService.repo := r'\<rparr>)
                         else (Some err, book', s\<lparr>BookService.repo := r'\<rparr>))
                    | (None, book', r') \<Rightarrow> (None, book', s\<lparr>BookService.repo := r'\<rparr>))))"

definition BookService_DeleteBook ::
  "string \<Rightarrow> BookService \<Rightarrow> error option \<times> BookService" where
  "BookService_DeleteBook bid s =
     (case BookRepository_Delete bid (BookService.repo s) of
        (Some err, r') \<Rightarrow>
          (if errors_Is err repository_ErrBookNotFound
           then (Some service_ErrBookNotFound, s\<lparr>BookService.repo := r'\<rparr>)
           else (Some err, s\<lparr>BookService.repo := r'\<rparr>))
      | (None, r') \<Rightarrow> (None, s\<lparr>BookService.repo := r'\<rparr>))"

definition BookService_ListBooks :: "BookService \<Rightarrow> Book list" where
  "BookService_ListBooks s = BookRepository_List (BookService.repo s)"

definition BookService_GetBooksByAuthor :: "BookService \<Rightarrow> string \<Rightarrow> Book list" where
  "BookService_GetBooksByAuthor s authorID =
     BookRepository_FindByAuthor (BookService.repo s) authorID"

definition BookService_GetBookCount :: "BookService \<Rightarrow> nat" where
  "BookService_GetBookCount s = BookRepository_Count (BookService.repo s)"

subsection \<open>AuthorService\<close>

record AuthorService =
  repo :: AuthorRepository

definition NewAuthorService :: "AuthorRepository \<Rightarrow> AuthorService" where
  "NewAuthorService r = \<lparr>repo = r\<rparr>"

definition AuthorService_CreateAuthor ::
  "time \<Rightarrow> Author \<Rightarrow> AuthorService \<Rightarrow> error option \<times> Author \<times> AuthorService" where
  "AuthorService_CreateAuthor now author s =
     (case Author_Validate author of
        Some err \<Rightarrow> (Some (fmt_Errorf service_ErrInvalidAuthor err), author, s)
      | None \<Rightarrow>
          (case AuthorRepository_Create now author (AuthorService.repo s) of
             (err, author', r') \<Rightarrow> (err, author', s\<lparr>AuthorService.repo := r'\<rparr>)))"

definition AuthorService_GetAuthor :: "AuthorService \<Rightarrow> string \<Rightarrow> error + Author" where
  "AuthorService_GetAuthor s aid =
     (case AuthorRepository_Get (AuthorService.repo s) aid of
        Inl err \<Rightarrow>
          (if errors_Is err repository_ErrAuthorNotFound then Inl service_ErrAuthorNotFound
           else Inl err)
      | Inr author \<Rightarrow> Inr author)"

definition AuthorService_UpdateAuthor ::
  "time \<Rightarrow> Author \<Rightarrow> AuthorService \<Rightarrow> error option \<times> Author \<times> AuthorService" where
  "AuthorService_UpdateAuthor now author s =
     (case Author_Validate author of
        Some err \<Rightarrow> (Some (fmt_Errorf service_ErrInvalidAuthor err), author, s)
      | None \<Rightarrow>
          (case AuthorRepository_Update now author (AuthorService.repo s) of
             (Some err, author', r') \<Rightarrow>
               (if errors_Is err repository_ErrAuthorNotFound
                then (Some service_ErrAuthorNotFound, author', s\<lparr>AuthorService.repo := r'\<rparr>)
                else (Some err, author', s\<lparr>AuthorService.repo := r'\<rparr>))
           | (None, author', r') \<Rightarrow> (None, author', s\<lparr>AuthorService.repo := r'\<rparr>)))"

definition AuthorService_DeleteAuthor ::
  "string \<Rightarrow> AuthorService \<Rightarrow> error option \<times> AuthorService" where
  "AuthorService_DeleteAuthor aid s =
     (case AuthorRepository_Delete aid (AuthorService.repo s) of
        (Some err, r') \<Rightarrow>
          (if errors_Is err repository_ErrAuthorNotFound
           then (Some service_ErrAuthorNotFound, s\<lparr>AuthorService.repo := r'\<rparr>)
           else (Some err, s\<lparr>AuthorService.repo := r'\<rparr>))
      | (None, r') \<Rightarrow> (None, s\<lparr>AuthorService.repo := r'\<rparr>))"

definition AuthorService_ListAuthors :: "AuthorService \<Rightarrow> Author list" where
  "AuthorService_ListAuthors s = AuthorRepository_List (AuthorService.repo s)"

definition AuthorService_GetAuthorsByCountry :: "AuthorService \<Rightarrow> string \<Rightarrow> Author list" where
  "AuthorService_GetAuthorsByCountry s country =
     AuthorRepository_FindByCountry (AuthorService.repo s) country"

subsection \<open>ReadingListService\<close>

record ReadingListService =
  repo :: ReadingListRepository
  bookRepo :: BookRepository

definition NewReadingListService ::
  "ReadingListRepository \<Rightarrow> BookRepository \<Rightarrow> ReadingListService" where
  "NewReadingListService r br = \<lparr>repo = r, bookRepo = br\<rparr>"

definition ReadingListService_CreateReadingList ::
  "time \<Rightarrow> ReadingList \<Rightarrow> ReadingListService
     \<Rightarrow> error option \<times> ReadingList \<times> ReadingListService" where
  "ReadingListService_CreateReadingList now list s =
     (case ReadingList_Validate list of
        Some err \<Rightarrow> (Some (fmt_Errorf service_ErrInvalidReadingList err), list, s)
      | None \<Rightarrow>
          (case ReadingListRepository_Create now list (ReadingListService.repo s) of
             (Some err, list', r') \<Rightarrow> (Some err, list', s\<lparr>ReadingListService.repo := r'\<rparr>)
           | (None, list', r') \<Rightarrow> (None, list', s\<lparr>ReadingListService.repo := r'\<rparr>)))"

definition ReadingListService_GetReadingList ::
  "ReadingListService \<Rightarrow> string \<Rightarrow> error + ReadingList" where
  "ReadingListService_GetReadingList s lid =
     (case ReadingListRepository_Get (ReadingListService.repo s) lid of
        Inl err \<Rightarrow>
          (if errors_Is err repository_ErrReadingListNotFound
           then Inl service_ErrReadingListNotFound
           else Inl err)
      | Inr list \<Rightarrow> Inr list)"

definition ReadingListService_UpdateReadingList ::
  "time \<Rightarrow> ReadingList \<Rightarrow> ReadingListService
     \<Rightarrow> error option \<times> ReadingList \<times> ReadingListService" where
  "ReadingListService_UpdateReadingList now list s =
     (case ReadingList_Validate list of
        Some err \<Rightarrow> (Some (fmt_Errorf service_ErrInvalidReadingList err), list, s)
      | None \<Rightarrow>
          (case ReadingListRepository_Update now list (ReadingListService.repo s) of
             (Some err, list', r') \<Rightarrow>
               (if errors_Is err repository_ErrReadingListNotFound
                then (Some service_ErrReadingListNotFound, list',
                      s\<lparr>ReadingListService.repo := r'\<rparr>)
                else (Some err, list', s\<lparr>ReadingListService.repo := r'\<rparr>))
           | (None, list', r') \<Rightarrow> (None, list', s\<lparr>ReadingListService.repo := r'\<rparr>)))"

definition ReadingListService_DeleteReadingList ::
  "string \<Rightarrow> ReadingListService \<Rightarrow> error option \<times> ReadingListService" where
  "ReadingListService_DeleteReadingList lid s =
     (case ReadingListRepository_Delete lid (ReadingListService.repo s) of
        (Some err, r') \<Rightarrow>
          (if errors_Is err repository_ErrReadingListNotFound
           then (Some service_ErrReadingListNotFound, s\<lparr>ReadingListService.repo := r'\<rparr>)
           else (Some err, s\<lparr>ReadingListService.repo := r'\<rparr>))
      | (None, r') \<Rightarrow> (None, s\<lparr>ReadingListService.repo := r'\<rparr>))"

definition ReadingListService_AddBookToList ::
  "time \<Rightarrow> string \<Rightarrow> string \<Rightarrow> ReadingListService \<Rightarrow> error option \<times> ReadingListService" where
  "ReadingListService_AddBookToList now listID bookID s =
     (case BookRepository_Get (bookRepo s) bookID of
        Inl err \<Rightarrow>
          (if errors_Is err repository_ErrBookNotFound then (Some service_ErrBookNotFound, s)
           else (Some err, s))
      | Inr book \<Rightarrow>
          (case ReadingListRepository_Get (ReadingListService.repo s) listID of
             Inl err \<Rightarrow>
               (if errors_Is err repository_ErrReadingListNotFound
                then (Some service_ErrReadingListNotFound, s)
                else (Some err, s))
           | Inr list \<Rightarrow>
               (case ReadingList_AddBook list bookID of
                  (False, list') \<Rightarrow> (Some service_ErrBookAlreadyInList, s)
                | (True, list') \<Rightarrow>
                    (case ReadingListRepository_Update now list' (ReadingListService.repo s) of
                       (err, list'', r') \<Rightarrow> (err, s\<lparr>ReadingListService.repo := r'\<rparr>)))))"

definition ReadingListService_RemoveBookFromList ::
  "time \<Rightarrow> string \<Rightarrow> string \<Rightarrow> ReadingListService \<Rightarrow> error option \<times> ReadingListService" where
  "ReadingListService_RemoveBookFromList now listID bookID s =
     (case ReadingListRepository_Get (ReadingListService.repo s) listID of
        Inl err \<Rightarrow>
          (if errors_Is err repository_ErrReadingListNotFound
           then (Some service_ErrReadingListNotFound, s)
           else (Some err, s))
      | Inr list \<Rightarrow>
          (case ReadingList_RemoveBook list bookID of
             (False, list') \<Rightarrow> (Some service_ErrBookNotInList, s)
           | (True, list') \<Rightarrow>
               (case ReadingListRepository_Update now list' (ReadingListService.repo s) of
                  (err, list'', r') \<Rightarrow> (err, s\<lparr>ReadingListService.repo := r'\<rparr>))))"

definition ReadingListService_GetListsContainingBook ::
  "ReadingListService \<Rightarrow> string \<Rightarrow> ReadingList list" where
  "ReadingListService_GetListsContainingBook s bookID =
     ReadingListRepository_FindByBook (ReadingListService.repo s) bookID"

section \<open>HTTP requests and responses\<close>

text \<open>
  What the handlers and the middleware use of \<^verbatim>\<open>net/http\<close>. A request has its
  method, its URL path, its headers (canonical name to values), its body and the values
  of its context; the context key type of package middleware is a string type. A
  response writer has the header map, the status line once written, and what was
  written to the body. \<^verbatim>\<open>WriteHeader\<close> writes the status once; a later call changes
  nothing. A first \<^verbatim>\<open>Write\<close> without status writes 200.
\<close>

record User =
  Username :: string
  Role :: string

record Request =
  Method :: string
  Path :: string
  Header :: "string \<Rightarrow> string list"
  Body :: string
  Context :: "string \<rightharpoonup> User option"

text \<open>
  A handler encodes to the body either the map \<^verbatim>\<open>{"error": message}\<close>, a book or a
  list of books; \<^verbatim>\<open>http.Error\<close> prints a line of text.
\<close>

datatype written =
    JSON_error string
  | JSON_book Book
  | JSON_books "Book list"
  | Text string

record ResponseWriter =
  header :: "string \<rightharpoonup> string"
  status :: "nat option"
  body :: "written list"

definition Header_Get :: "(string \<Rightarrow> string list) \<Rightarrow> string \<Rightarrow> string" where
  "Header_Get h key = (case h key of [] \<Rightarrow> [] | v # vs \<Rightarrow> v)"

definition Header_Set :: "ResponseWriter \<Rightarrow> string \<Rightarrow> string \<Rightarrow> ResponseWriter" where
  "Header_Set w key v = w\<lparr>header := (header w)(key \<mapsto> v)\<rparr>"

definition Header_Del :: "ResponseWriter \<Rightarrow> string \<Rightarrow> ResponseWriter" where
  "Header_Del w key = w\<lparr>header := (header w)(key := None)\<rparr>"

definition WriteHeader :: "ResponseWriter \<Rightarrow> nat \<Rightarrow> ResponseWriter" where
  "WriteHeader w code = (case status w of None \<Rightarrow> w\<lparr>status := Some code\<rparr> | Some c \<Rightarrow> w)"

definition Write :: "ResponseWriter \<Rightarrow> written \<Rightarrow> ResponseWriter" where
  "Write w x = (let w' = WriteHeader w 200 in w'\<lparr>body := body w' @ [x]\<rparr>)"

definition http_Error :: "ResponseWriter \<Rightarrow> string \<Rightarrow> nat \<Rightarrow> ResponseWriter" where
  "http_Error w msg code =
     (let w1 = Header_Del w ''Content-Length'';
          w2 = Header_Set w1 ''Content-Type'' ''text/plain; charset=utf-8'';
          w3 = Header_Set w2 ''X-Content-Type-Options'' ''nosniff'';
          w4 = WriteHeader w3 code
      in Write w4 (Text (msg @ [CHR 0x0A])))"

abbreviation StatusCreated :: nat where "StatusCreated \<equiv> 201"
abbreviation StatusOK :: nat where "StatusOK \<equiv> 200"
abbreviation StatusBadRequest :: nat where "StatusBadRequest \<equiv> 400"
abbreviation StatusUnauthorized :: nat where "StatusUnauthorized \<equiv> 401"
abbreviation StatusConflict :: nat where "StatusConflict \<equiv> 409"
abbreviation StatusMethodNotAllowed :: nat where "StatusMethodNotAllowed \<equiv> 405"
abbreviation StatusInternalServerError :: nat where "StatusInternalServerError \<equiv> 500"

section \<open>Package handler: BookHandler\<close>

definition respondJSON :: "ResponseWriter \<Rightarrow> nat \<Rightarrow> written \<Rightarrow> ResponseWriter" where
  "respondJSON w code data =
     (let w1 = Header_Set w ''Content-Type'' ''application/json'';
          w2 = WriteHeader w1 code
      in Write w2 data)"

definition respondError :: "ResponseWriter \<Rightarrow> nat \<Rightarrow> string \<Rightarrow> ResponseWriter" where
  "respondError w code message = respondJSON w code (JSON_error message)"

record BookHandler =
  service :: BookService

text \<open>
  \<^verbatim>\<open>json.NewDecoder(r.Body).Decode(&book)\<close> belongs to the standard library: the
  handler takes it as \<open>Decode\<close>, from the body to the decoded book, \<open>None\<close> when
  decoding fails.
\<close>

definition BookHandler_listBooks ::
  "ResponseWriter \<Rightarrow> Request \<Rightarrow> BookHandler \<Rightarrow> ResponseWriter \<times> BookHandler" where
  "BookHandler_listBooks w r h =
     (let books = BookService_ListBooks (service h)
      in (respondJSON w StatusOK (JSON_books books), h))"

definition BookHandler_createBook ::
  "(string \<Rightarrow> Book option) \<Rightarrow> time \<Rightarrow> ResponseWriter \<Rightarrow> Request \<Rightarrow> BookHandler
     \<Rightarrow> ResponseWriter \<times> BookHandler" where
  "BookHandler_createBook Decode now w r h =
     (case Decode (Body r) of
        None \<Rightarrow> (respondError w StatusBadRequest ''Invalid JSON'', h)
      | Some book \<Rightarrow>
          (case BookService_CreateBook now book (service h) of
             (Some err, book', s') \<Rightarrow>
               (if errors_Is err service_ErrInvalidBook
                then (respondError w StatusBadRequest (Error err), h\<lparr>service := s'\<rparr>)
                else if errors_Is err service_ErrDuplicateISBN
                then (respondError w StatusConflict ''Book with this ISBN already exists'',
                      h\<lparr>service := s'\<rparr>)
                else (respondError w StatusInternalServerError ''Failed to create book'',
                      h\<lparr>service := s'\<rparr>))
           | (None, book', s') \<Rightarrow>
               (respondJSON w StatusCreated (JSON_book book'), h\<lparr>service := s'\<rparr>)))"

definition BookHandler_handleBooks ::
  "(string \<Rightarrow> Book option) \<Rightarrow> time \<Rightarrow> ResponseWriter \<Rightarrow> Request \<Rightarrow> BookHandler
     \<Rightarrow> ResponseWriter \<times> BookHandler" where
  "BookHandler_handleBooks Decode now w r h =
     (if Method r = ''GET'' then BookHandler_listBooks w r h
      else if Method r = ''POST'' then BookHandler_createBook Decode now w r h
      else (http_Error w ''Method not allowed'' StatusMethodNotAllowed, h))"

section \<open>Package middleware: Basic Auth\<close>

definition UserContextKey :: string where
  "UserContextKey = ''user''"

record Credentials =
  Username :: string
  Password :: string

record InMemoryUserStore =
  users :: "string \<rightharpoonup> Credentials"
  roles :: "string \<rightharpoonup> string"

definition NewInMemoryUserStore :: InMemoryUserStore where
  "NewInMemoryUserStore = \<lparr>users = Map.empty, roles = Map.empty\<rparr>"

definition InMemoryUserStore_AddUser ::
  "InMemoryUserStore \<Rightarrow> string \<Rightarrow> string \<Rightarrow> string \<Rightarrow> InMemoryUserStore" where
  "InMemoryUserStore_AddUser s username password role =
     s\<lparr>users := (users s)(username \<mapsto> \<lparr>Credentials.Username = username, Password = password\<rparr>),
       roles := (roles s)(username \<mapsto> role)\<rparr>"

text \<open>
  \<^verbatim>\<open>Authenticate\<close> returns a pointer to a user and a boolean. Reading a role the
  map does not hold gives the empty string. \<^verbatim>\<open>subtle.ConstantTimeCompare\<close> returns 1
  exactly when the two byte strings are equal.
\<close>

definition InMemoryUserStore_Authenticate ::
  "InMemoryUserStore \<Rightarrow> string \<Rightarrow> string \<Rightarrow> User option \<times> bool" where
  "InMemoryUserStore_Authenticate s username password =
     (case users s username of
        None \<Rightarrow> (None, False)
      | Some creds \<Rightarrow>
          (if Password creds \<noteq> password then (None, False)
           else (Some \<lparr>User.Username = username,
                       Role = (case roles s username of None \<Rightarrow> [] | Some role \<Rightarrow> role)\<rparr>,
                 True)))"

text \<open>
  \<^verbatim>\<open>strings.EqualFold\<close> is called on the first six bytes of the header and the ASCII
  constant \<^verbatim>\<open>"Basic "\<close>. Against six ASCII bytes, a string of six bytes is equal
  under Unicode simple case folding exactly when it is byte for byte equal up to the
  case of ASCII letters: a multi-byte rune in it leaves fewer than six runes, and the
  only non-ASCII runes that fold to an ASCII letter take more than one byte.
\<close>

definition ascii_lower :: "char \<Rightarrow> char" where
  "ascii_lower c =
     (let n = (of_char c :: nat) in if 65 \<le> n \<and> n \<le> 90 then char_of (n + 32) else c)"

definition strings_EqualFold :: "string \<Rightarrow> string \<Rightarrow> bool" where
  "strings_EqualFold s t = (map ascii_lower s = map ascii_lower t)"

fun IndexByte_loop :: "string \<Rightarrow> char \<Rightarrow> int \<Rightarrow> int" where
  "IndexByte_loop [] c i = -1"
| "IndexByte_loop (x # xs) c i = (if x = c then i else IndexByte_loop xs c (i + 1))"

definition strings_IndexByte :: "string \<Rightarrow> char \<Rightarrow> int" where
  "strings_IndexByte s c = IndexByte_loop s c 0"

text \<open>
  \<^verbatim>\<open>base64.StdEncoding.DecodeString\<close> belongs to the standard library:
  \<open>parseBasicAuth\<close> takes it as \<open>DecodeString\<close>, \<open>None\<close> when it returns an error.
\<close>

definition parseBasicAuth ::
  "(string \<Rightarrow> string option) \<Rightarrow> string \<Rightarrow> string \<times> string \<times> bool" where
  "parseBasicAuth DecodeString auth =
     (let prefix = ''Basic ''
      in if length auth < length prefix
            \<or> \<not> strings_EqualFold (take (length prefix) auth) prefix
         then ([], [], False)
         else (case DecodeString (drop (length prefix) auth) of
                 None \<Rightarrow> ([], [], False)
               | Some decoded \<Rightarrow>
                   (let decodedStr = decoded;
                        colonIdx = strings_IndexByte decodedStr CHR '':''
                    in if colonIdx < 0 then ([], [], False)
                       else (take (nat colonIdx) decodedStr,
                             drop (nat (colonIdx + 1)) decodedStr, True))))"

definition requireAuth :: "ResponseWriter \<Rightarrow> string \<Rightarrow> ResponseWriter" where
  "requireAuth w realm =
     (let w1 = Header_Set w ''WWW-Authenticate'' (''Basic realm=\"'' @ realm @ ''\"'')
      in http_Error w1 ''Unauthorized'' StatusUnauthorized)"

text \<open>
  A handler works on the response writer and on the rest of the program's state
  \<open>'s\<close>. The user store is the interface method \<^verbatim>\<open>Authenticate\<close>.
\<close>

type_synonym 's Handler = "ResponseWriter \<Rightarrow> Request \<Rightarrow> 's \<Rightarrow> ResponseWriter \<times> 's"

definition context_WithValue ::
  "(string \<rightharpoonup> User option) \<Rightarrow> string \<Rightarrow> User option \<Rightarrow> (string \<rightharpoonup> User option)" where
  "context_WithValue ctx key val = ctx(key \<mapsto> val)"

definition BasicAuth ::
  "(string \<Rightarrow> string option) \<Rightarrow> (string \<Rightarrow> string \<Rightarrow> User option \<times> bool) \<Rightarrow> string
     \<Rightarrow> 's Handler \<Rightarrow> 's Handler" where
  "BasicAuth DecodeString store realm next w r st =
     (case parseBasicAuth DecodeString (Header_Get (Header r) ''Authorization'') of
        (username, password, ok) \<Rightarrow>
          if \<not> ok then (requireAuth w realm, st)
          else (case store username password of
                  (user, authenticated) \<Rightarrow>
                    if \<not> authenticated then (requireAuth w realm, st)
                    else (let ctx = context_WithValue (Context r) UserContextKey user
                          in next w (r\<lparr>Context := ctx\<rparr>) st)))"

definition GetUser :: "(string \<rightharpoonup> User option) \<Rightarrow> User option" where
  "GetUser ctx = (case ctx UserContextKey of None \<Rightarrow> None | Some user \<Rightarrow> user)"

section \<open>Runs and invariants\<close>

text \<open>
  A run of a repository: the calls made on it, each \<open>Create\<close> and \<open>Update\<close> with the
  clock reading it gets. \<open>clock_readings\<close> lists the readings of a run in order; the
  clock is non-decreasing when that list is sorted. \<open>stamped r t\<close> says that every
  entity stored in \<open>r\<close> was created no later than it was last updated, and last updated
  no later than \<open>t\<close>.
\<close>

datatype 'e repo_call = Call_Create time 'e | Call_Update time 'e | Call_Delete string

fun call_readings :: "'e repo_call \<Rightarrow> time list" where
  "call_readings (Call_Create now e) = [now]"
| "call_readings (Call_Update now e) = [now]"
| "call_readings (Call_Delete k) = []"

definition clock_readings :: "'e repo_call list \<Rightarrow> time list" where
  "clock_readings calls = concat (map call_readings calls)"

fun BookRepository_step :: "BookRepository \<Rightarrow> Book repo_call \<Rightarrow> BookRepository" where
  "BookRepository_step r (Call_Create now b) = snd (snd (BookRepository_Create now b r))"
| "BookRepository_step r (Call_Update now b) = snd (snd (BookRepository_Update now b r))"
| "BookRepository_step r (Call_Delete k) = snd (BookRepository_Delete k r)"

definition BookRepository_run :: "BookRepository \<Rightarrow> Book repo_call list \<Rightarrow> BookRepository" where
  "BookRepository_run r calls = foldl BookRepository_step r calls"

definition BookRepository_stamped :: "BookRepository \<Rightarrow> time \<Rightarrow> bool" where
  "BookRepository_stamped r t =
     list_all (\<lambda>(k, e). Book.CreatedAt e \<le> Book.UpdatedAt e \<and> Book.UpdatedAt e \<le> t)
       (DAList.impl_of (books r))"

fun AuthorRepository_step :: "AuthorRepository \<Rightarrow> Author repo_call \<Rightarrow> AuthorRepository" where
  "AuthorRepository_step r (Call_Create now b) = snd (snd (AuthorRepository_Create now b r))"
| "AuthorRepository_step r (Call_Update now b) = snd (snd (AuthorRepository_Update now b r))"
| "AuthorRepository_step r (Call_Delete k) = snd (AuthorRepository_Delete k r)"

definition AuthorRepository_run :: "AuthorRepository \<Rightarrow> Author repo_call list \<Rightarrow> AuthorRepository" where
  "AuthorRepository_run r calls = foldl AuthorRepository_step r calls"

definition AuthorRepository_stamped :: "AuthorRepository \<Rightarrow> time \<Rightarrow> bool" where
  "AuthorRepository_stamped r t =
     list_all (\<lambda>(k, e). Author.CreatedAt e \<le> Author.UpdatedAt e \<and> Author.UpdatedAt e \<le> t)
       (DAList.impl_of (authors r))"

fun ReadingListRepository_step :: "ReadingListRepository \<Rightarrow> ReadingList repo_call \<Rightarrow> ReadingListRepository" where
  "ReadingListRepository_step r (Call_Create now b) = snd (snd (ReadingListRepository_Create now b r))"
| "ReadingListRepository_step r (Call_Update now b) = snd (snd (ReadingListRepository_Update now b r))"
| "ReadingListRepository_step r (Call_Delete k) = snd (ReadingListRepository_Delete k r)"

definition ReadingListRepository_run :: "ReadingListRepository \<Rightarrow> ReadingList repo_call list \<Rightarrow> ReadingListRepository" where
  "ReadingListRepository_run r calls = foldl ReadingListRepository_step r calls"

definition ReadingListRepository_stamped :: "ReadingListRepository \<Rightarrow> time \<Rightarrow> bool" where
  "ReadingListRepository_stamped r t =
     list_all (\<lambda>(k, e). ReadingList.CreatedAt e \<le> ReadingList.UpdatedAt e \<and> ReadingList.UpdatedAt e \<le> t)
       (DAList.impl_of (lists r))"

text \<open>
  Every method of a repository stores an entity under its own identifier, so in every
  state a repository reaches, the key of an entry is the \<open>ID\<close> of its entity.
\<close>

definition ReadingListRepository_inv :: "ReadingListRepository \<Rightarrow> bool" where
  "ReadingListRepository_inv r =
     list_all (\<lambda>(k, list). ReadingList.ID list = k) (DAList.impl_of (lists r))"

definition BookRepository_inv :: "BookRepository \<Rightarrow> bool" where
  "BookRepository_inv r =
     list_all (\<lambda>(k, book). Book.ID book = k) (DAList.impl_of (books r))"

text \<open>
  A run of the book service is a sequence of calls of its mutating methods, starting
  from a service on a new repository.
\<close>

datatype BookService_call =
    Call_CreateBook time Book
  | Call_UpdateBook time Book
  | Call_DeleteBook string

fun BookService_step :: "BookService \<Rightarrow> BookService_call \<Rightarrow> BookService" where
  "BookService_step s (Call_CreateBook now b) = snd (snd (BookService_CreateBook now b s))"
| "BookService_step s (Call_UpdateBook now b) = snd (snd (BookService_UpdateBook now b s))"
| "BookService_step s (Call_DeleteBook k) = snd (BookService_DeleteBook k s)"

definition BookService_run :: "BookService_call list \<Rightarrow> BookService" where
  "BookService_run calls = foldl BookService_step (NewBookService NewBookRepository) calls"


section \<open>The wording of the specification\<close>



text \<open>
  The credentials of a request as the specification words them: the header starts with
  \<^verbatim>\<open>Basic \<close> in any case, what follows decodes, the decoded text has a colon, and the
  user name and the password are the text before and after the first colon.
\<close>

definition credentials_spec :: "(string \<Rightarrow> string option) \<Rightarrow> string \<Rightarrow> (string \<times> string) option" where
  "credentials_spec DecodeString auth =
     (if 6 \<le> length auth \<and> map ascii_lower (take 6 auth) = ''basic ''
      then (case DecodeString (drop 6 auth) of
              None \<Rightarrow> None
            | Some decoded \<Rightarrow>
                if CHR '':'' \<in> set decoded
                then Some (takeWhile (\<lambda>c. c \<noteq> CHR '':'') decoded,
                           tl (dropWhile (\<lambda>c. c \<noteq> CHR '':'') decoded))
                else None)
      else None)"

text \<open>A wrapped handler that records the requests it is run with.\<close>

definition recording_handler :: "Request list Handler" where
  "recording_handler w r calls = (w, calls @ [r])"


section \<open>Concrete inputs\<close>

text \<open>
  The entities and requests of the repository's tests: book \<^verbatim>\<open>b1\<close> with ISBN
  \<^verbatim>\<open>123\<close>, an author, a reading list, a store holding them, and the calls that build
  such a store.
\<close>

definition book0 :: Book where
  "book0 = \<lparr>Book.ID = ''b1'', Title = ''T'', ISBN = ''123'', AuthorID = ''a1'',
            PublishedAt = 0, Pages = 0, Genre = [], CreatedAt = 0, UpdatedAt = 0\<rparr>"

definition author0 :: Author where
  "author0 = \<lparr>Author.ID = ''a1'', Name = ''Jane Doe'', Bio = [], BirthDate = 0,
              Country = ''USA'', CreatedAt = 0, UpdatedAt = 0\<rparr>"

definition list0 :: ReadingList where
  "list0 = \<lparr>ReadingList.ID = ''list-1'', Name = ''My List'', Description = [],
            BookIDs = [''b1'', ''b2''], CreatedAt = 1, UpdatedAt = 1\<rparr>"

definition bookrepo0 :: BookRepository where
  "bookrepo0 = \<lparr>books = DAList.update ''b1'' (book0\<lparr>Book.CreatedAt := 5, Book.UpdatedAt := 5\<rparr>) DAList.empty\<rparr>"

definition listrepo0 :: ReadingListRepository where
  "listrepo0 = \<lparr>lists = DAList.update ''list-1'' list0 DAList.empty\<rparr>"

definition listsvc0 :: ReadingListService where
  "listsvc0 = NewReadingListService listrepo0 bookrepo0"

definition bookcalls0 :: "Book repo_call list" where
  "bookcalls0 = [Call_Create 1 book0]"

definition bookcalls1 :: "Book repo_call list" where
  "bookcalls1 = [Call_Update 5 (book0\<lparr>Title := ''T2''\<rparr>), Call_Delete ''b9'']"

definition authorcalls0 :: "Author repo_call list" where
  "authorcalls0 = [Call_Create 1 author0]"

definition authorcalls1 :: "Author repo_call list" where
  "authorcalls1 = [Call_Update 5 (author0\<lparr>Bio := ''A prolific writer.''\<rparr>)]"

definition listcalls0 :: "ReadingList repo_call list" where
  "listcalls0 = [Call_Create 1 list0]"

definition listcalls1 :: "ReadingList repo_call list" where
  "listcalls1 = [Call_Update 5 (list0\<lparr>Description := ''for the summer''\<rparr>)]"

definition booksvc1 :: BookService where
  "booksvc1 = BookService_run [Call_CreateBook 1 book0]"



definition bookhandler1 :: BookHandler where
  "bookhandler1 = \<lparr>service = booksvc1\<rparr>"

definition writer0 :: ResponseWriter where
  "writer0 = \<lparr>header = Map.empty, status = None, body = []\<rparr>"

definition post0 :: Request where
  "post0 = \<lparr>Method = ''POST'', Path = ''/api/books'', Header = (\<lambda>k. []),
            Body = ''{\"id\":\"b1\",\"title\":\"T\",\"isbn\":\"456\",\"author_id\":\"a1\"}'',
            Context = Map.empty\<rparr>"

definition decode0 :: "string \<Rightarrow> Book option" where
  "decode0 payload =
     (if payload = ''{\"id\":\"b1\",\"title\":\"T\",\"isbn\":\"456\",\"author_id\":\"a1\"}''
      then Some (book0\<lparr>ISBN := ''456''\<rparr>) else None)"

definition decodeString0 :: "string \<Rightarrow> string option" where
  "decodeString0 s = (if s = ''dXNlcjpwdw=='' then Some ''user:pw'' else None)"

definition userstore0 :: InMemoryUserStore where
  "userstore0 = InMemoryUserStore_AddUser NewInMemoryUserStore ''user'' ''pw'' ''admin''"

definition get0 :: "string \<Rightarrow> Request" where
  "get0 auth = \<lparr>Method = ''GET'', Path = ''/api/books'',
                Header = (\<lambda>k. if k = ''Authorization'' then [auth] else []),
                Body = [], Context = Map.empty\<rparr>"

section \<open>Verified properties\<close>

subsection \<open>Membership of a reading list\<close>

lemma AddBook_loop_iff: "AddBook_loop ids bookID \<longleftrightarrow> bookID \<in> set ids"
  by (induction ids) auto

lemma ContainsBook_loop_iff: "ContainsBook_loop ids bookID \<longleftrightarrow> bookID \<in> set ids"
  by (induction ids) auto

lemma RemoveBook_index_None: "RemoveBook_index ids bookID i = None \<longleftrightarrow> bookID \<notin> set ids"
  by (induction ids arbitrary: i) auto

lemma RemoveBook_index_Some:
  "RemoveBook_index ids bookID i = Some j \<Longrightarrow>
     i \<le> j \<and> j - i < length ids \<and> ids ! (j - i) = bookID \<and> bookID \<notin> set (take (j - i) ids)"
proof (induction ids arbitrary: i)
  case Nil
  then show ?case by simp
next
  case (Cons x xs)
  show ?case
  proof (cases "x = bookID")
    case True
    with Cons.prems show ?thesis by simp
  next
    case False
    with Cons.prems have rec: "RemoveBook_index xs bookID (Suc i) = Some j" by simp
    from Cons.IH [OF rec] have h: "Suc i \<le> j" "j - Suc i < length xs"
      "xs ! (j - Suc i) = bookID" "bookID \<notin> set (take (j - Suc i) xs)" by auto
    from h(1) have e: "j - i = Suc (j - Suc i)" by arith
    show ?thesis using h False by (simp add: e)
  qed
qed

lemma RemoveBook_split:
  assumes "RemoveBook_index ids bookID 0 = Some j"
  shows "ids = take j ids @ bookID # drop (j + 1) ids \<and> bookID \<notin> set (take j ids)"
proof -
  from RemoveBook_index_Some [OF assms] have "j < length ids" "ids ! j = bookID"
    "bookID \<notin> set (take j ids)" by auto
  then show ?thesis using id_take_nth_drop [of j ids] by simp
qed

text \<open>
  C4. \<open>AddBook\<close> on an id that is not a member returns true and appends the id at
  the end; on a member it returns false and leaves the list as it is. \<open>RemoveBook\<close>
  on a member returns true and removes its first occurrence, so the list is one shorter
  and the other ids keep their order; on an id that is not a member it returns false and
  leaves the list as it is. A list without duplicates stays without duplicates.
\<close>

theorem C4_membership:
  "(bookID \<notin> set (BookIDs r) \<longrightarrow>
      ReadingList_AddBook r bookID = (True, r\<lparr>BookIDs := BookIDs r @ [bookID]\<rparr>))
   \<and> (bookID \<in> set (BookIDs r) \<longrightarrow> ReadingList_AddBook r bookID = (False, r))
   \<and> (bookID \<in> set (BookIDs r) \<longrightarrow>
        (\<exists>before after.
           BookIDs r = before @ bookID # after \<and> bookID \<notin> set before
           \<and> ReadingList_RemoveBook r bookID = (True, r\<lparr>BookIDs := before @ after\<rparr>)
           \<and> length (before @ after) + 1 = length (BookIDs r)))
   \<and> (bookID \<notin> set (BookIDs r) \<longrightarrow> ReadingList_RemoveBook r bookID = (False, r))
   \<and> (distinct (BookIDs r) \<longrightarrow>
        distinct (BookIDs (snd (ReadingList_AddBook r bookID)))
        \<and> distinct (BookIDs (snd (ReadingList_RemoveBook r bookID))))"
proof -
  have add: "ReadingList_AddBook r bookID =
      (if bookID \<in> set (BookIDs r) then (False, r)
       else (True, r\<lparr>BookIDs := BookIDs r @ [bookID]\<rparr>))"
    by (simp add: ReadingList_AddBook_def AddBook_loop_iff)
  have absent: "bookID \<notin> set (BookIDs r) \<Longrightarrow> ReadingList_RemoveBook r bookID = (False, r)"
    using RemoveBook_index_None [of "BookIDs r" bookID 0]
    by (simp add: ReadingList_RemoveBook_def)
  have present: "\<exists>before after.
           BookIDs r = before @ bookID # after \<and> bookID \<notin> set before
           \<and> ReadingList_RemoveBook r bookID = (True, r\<lparr>BookIDs := before @ after\<rparr>)
           \<and> length (before @ after) + 1 = length (BookIDs r)"
    if mem: "bookID \<in> set (BookIDs r)"
  proof -
    from mem obtain j where j: "RemoveBook_index (BookIDs r) bookID 0 = Some j"
      using RemoveBook_index_None [of "BookIDs r" bookID 0] by (cases "RemoveBook_index (BookIDs r) bookID 0") auto
    let ?b = "take j (BookIDs r)" and ?a = "drop (j + 1) (BookIDs r)"
    from RemoveBook_split [OF j] have s: "BookIDs r = ?b @ bookID # ?a" "bookID \<notin> set ?b" by auto
    have rm: "ReadingList_RemoveBook r bookID = (True, r\<lparr>BookIDs := ?b @ ?a\<rparr>)"
      using j by (simp add: ReadingList_RemoveBook_def)
    have "length (?b @ ?a) + 1 = length (?b @ bookID # ?a)" by simp
    with s(1) have len: "length (?b @ ?a) + 1 = length (BookIDs r)" by simp
    from s rm len show ?thesis by blast
  qed
  have dist: "distinct (BookIDs (snd (ReadingList_RemoveBook r bookID)))" if d: "distinct (BookIDs r)"
  proof (cases "bookID \<in> set (BookIDs r)")
    case True
    from present [OF True] obtain before after where
      h: "BookIDs r = before @ bookID # after"
         "ReadingList_RemoveBook r bookID = (True, r\<lparr>BookIDs := before @ after\<rparr>)" by blast
    from d h(1) have "distinct (before @ after)" by simp
    with h(2) show ?thesis by simp
  next
    case False
    with absent d show ?thesis by simp
  qed
  show ?thesis using add absent present dist by auto
qed

theorem C4_membership_witness:
  "ReadingList_AddBook list0 ''b3'' = (True, list0\<lparr>BookIDs := [''b1'', ''b2'', ''b3'']\<rparr>)
   \<and> ReadingList_RemoveBook list0 ''b3'' = (False, list0)
   \<and> ReadingList_AddBook list0 ''b1'' = (False, list0)
   \<and> fst (ReadingList_RemoveBook list0 ''b1'')
   \<and> distinct (BookIDs list0)
   \<and> distinct (BookIDs (snd (ReadingList_RemoveBook list0 ''b1'')))"
  using C4_membership [of "''b3''" list0] C4_membership [of "''b1''" list0]
  by (auto simp add: list0_def)

subsection \<open>Validation\<close>







subsection \<open>Stored entities\<close>


lemma all_entries_iff_lookup:
  "list_all (\<lambda>(k, e). P k e) (DAList.impl_of m) \<longleftrightarrow> (\<forall>k e. DAList.lookup m k = Some e \<longrightarrow> P k e)"
  by transfer (auto simp: list_all_iff)

lemma ReadingListRepository_inv_lookup:
  "ReadingListRepository_inv r \<Longrightarrow> DAList.lookup (lists r) k = Some l \<Longrightarrow> ReadingList.ID l = k"
  by (simp add: ReadingListRepository_inv_def all_entries_iff_lookup)

subsection \<open>Failed operations change nothing\<close>

lemma BookRepository_Create_fails:
  "fst (BookRepository_Create now b r) \<noteq> None \<Longrightarrow> snd (snd (BookRepository_Create now b r)) = r"
  by (simp add: BookRepository_Create_def Let_def split: option.splits)

lemma BookRepository_Update_fails:
  "fst (BookRepository_Update now b r) \<noteq> None \<Longrightarrow> snd (snd (BookRepository_Update now b r)) = r"
  by (simp add: BookRepository_Update_def Let_def split: option.splits)

lemma BookRepository_Delete_fails:
  "fst (BookRepository_Delete k r) \<noteq> None \<Longrightarrow> snd (BookRepository_Delete k r) = r"
  by (simp add: BookRepository_Delete_def split: option.splits)

lemma AuthorRepository_Create_fails:
  "fst (AuthorRepository_Create now a r) \<noteq> None \<Longrightarrow> snd (snd (AuthorRepository_Create now a r)) = r"
  by (simp add: AuthorRepository_Create_def Let_def split: option.splits)

lemma AuthorRepository_Update_fails:
  "fst (AuthorRepository_Update now a r) \<noteq> None \<Longrightarrow> snd (snd (AuthorRepository_Update now a r)) = r"
  by (simp add: AuthorRepository_Update_def Let_def split: option.splits)

lemma AuthorRepository_Delete_fails:
  "fst (AuthorRepository_Delete k r) \<noteq> None \<Longrightarrow> snd (AuthorRepository_Delete k r) = r"
  by (simp add: AuthorRepository_Delete_def split: option.splits)

lemma ReadingListRepository_Create_fails:
  "fst (ReadingListRepository_Create now l r) \<noteq> None
     \<Longrightarrow> snd (snd (ReadingListRepository_Create now l r)) = r"
  by (simp add: ReadingListRepository_Create_def Let_def split: option.splits)

lemma ReadingListRepository_Update_fails:
  "fst (ReadingListRepository_Update now l r) \<noteq> None
     \<Longrightarrow> snd (snd (ReadingListRepository_Update now l r)) = r"
  by (simp add: ReadingListRepository_Update_def Let_def split: option.splits)

lemma ReadingListRepository_Delete_fails:
  "fst (ReadingListRepository_Delete k r) \<noteq> None \<Longrightarrow> snd (ReadingListRepository_Delete k r) = r"
  by (simp add: ReadingListRepository_Delete_def split: option.splits)

lemma BookService_CreateBook_fails:
  "fst (BookService_CreateBook now b s) \<noteq> None \<Longrightarrow> snd (snd (BookService_CreateBook now b s)) = s"
  using BookRepository_Create_fails [of now b "BookService.repo s"]
  by (auto simp add: BookService_CreateBook_def Let_def split: option.splits prod.splits)

lemma BookService_UpdateBook_fails:
  "fst (BookService_UpdateBook now b s) \<noteq> None \<Longrightarrow> snd (snd (BookService_UpdateBook now b s)) = s"
  using BookRepository_Update_fails [of now b "BookService.repo s"]
  by (auto simp add: BookService_UpdateBook_def Let_def split: option.splits prod.splits)

lemma BookService_DeleteBook_fails:
  "fst (BookService_DeleteBook k s) \<noteq> None \<Longrightarrow> snd (BookService_DeleteBook k s) = s"
  using BookRepository_Delete_fails [of k "BookService.repo s"]
  by (auto simp add: BookService_DeleteBook_def split: option.splits prod.splits)

lemma AuthorService_CreateAuthor_fails:
  "fst (AuthorService_CreateAuthor now a s) \<noteq> None
     \<Longrightarrow> snd (snd (AuthorService_CreateAuthor now a s)) = s"
  using AuthorRepository_Create_fails [of now a "AuthorService.repo s"]
  by (auto simp add: AuthorService_CreateAuthor_def split: option.splits prod.splits)

lemma AuthorService_UpdateAuthor_fails:
  "fst (AuthorService_UpdateAuthor now a s) \<noteq> None
     \<Longrightarrow> snd (snd (AuthorService_UpdateAuthor now a s)) = s"
  using AuthorRepository_Update_fails [of now a "AuthorService.repo s"]
  by (auto simp add: AuthorService_UpdateAuthor_def split: option.splits prod.splits)

lemma AuthorService_DeleteAuthor_fails:
  "fst (AuthorService_DeleteAuthor k s) \<noteq> None \<Longrightarrow> snd (AuthorService_DeleteAuthor k s) = s"
  using AuthorRepository_Delete_fails [of k "AuthorService.repo s"]
  by (auto simp add: AuthorService_DeleteAuthor_def split: option.splits prod.splits)

lemma ReadingListService_CreateReadingList_fails:
  "fst (ReadingListService_CreateReadingList now l s) \<noteq> None
     \<Longrightarrow> snd (snd (ReadingListService_CreateReadingList now l s)) = s"
  using ReadingListRepository_Create_fails [of now l "ReadingListService.repo s"]
  by (auto simp add: ReadingListService_CreateReadingList_def split: option.splits prod.splits)

lemma ReadingListService_UpdateReadingList_fails:
  "fst (ReadingListService_UpdateReadingList now l s) \<noteq> None
     \<Longrightarrow> snd (snd (ReadingListService_UpdateReadingList now l s)) = s"
  using ReadingListRepository_Update_fails [of now l "ReadingListService.repo s"]
  by (auto simp add: ReadingListService_UpdateReadingList_def split: option.splits prod.splits)

lemma ReadingListService_DeleteReadingList_fails:
  "fst (ReadingListService_DeleteReadingList k s) \<noteq> None
     \<Longrightarrow> snd (ReadingListService_DeleteReadingList k s) = s"
  using ReadingListRepository_Delete_fails [of k "ReadingListService.repo s"]
  by (auto simp add: ReadingListService_DeleteReadingList_def split: option.splits prod.splits)

lemma ReadingListRepository_Update_SomeD:
  "ReadingListRepository_Update now l r = (Some e, l', r') \<Longrightarrow> r' = r"
  using ReadingListRepository_Update_fails [of now l r] by simp

lemma ReadingListService_AddBookToList_fails:
  "fst (ReadingListService_AddBookToList now lid bid s) \<noteq> None
     \<Longrightarrow> snd (ReadingListService_AddBookToList now lid bid s) = s"
  by (auto simp add: ReadingListService_AddBookToList_def
      split: sum.splits prod.splits bool.splits if_splits
      dest: ReadingListRepository_Update_SomeD)

lemma ReadingListService_RemoveBookFromList_fails:
  "fst (ReadingListService_RemoveBookFromList now lid bid s) \<noteq> None
     \<Longrightarrow> snd (ReadingListService_RemoveBookFromList now lid bid s) = s"
  by (auto simp add: ReadingListService_RemoveBookFromList_def
      split: sum.splits prod.splits bool.splits if_splits
      dest: ReadingListRepository_Update_SomeD)

text \<open>
  C10. Whenever an operation of a service or of a repository returns an error, the
  repositories are what they were before the call.
\<close>

theorem C10_error_atomicity:
  "(fst (BookService_CreateBook now b bs) \<noteq> None
      \<longrightarrow> snd (snd (BookService_CreateBook now b bs)) = bs)
   \<and> (fst (BookService_UpdateBook now b bs) \<noteq> None
      \<longrightarrow> snd (snd (BookService_UpdateBook now b bs)) = bs)
   \<and> (fst (BookService_DeleteBook kb bs) \<noteq> None \<longrightarrow> snd (BookService_DeleteBook kb bs) = bs)
   \<and> (fst (AuthorService_CreateAuthor now a as) \<noteq> None
      \<longrightarrow> snd (snd (AuthorService_CreateAuthor now a as)) = as)
   \<and> (fst (AuthorService_UpdateAuthor now a as) \<noteq> None
      \<longrightarrow> snd (snd (AuthorService_UpdateAuthor now a as)) = as)
   \<and> (fst (AuthorService_DeleteAuthor ka as) \<noteq> None
      \<longrightarrow> snd (AuthorService_DeleteAuthor ka as) = as)
   \<and> (fst (ReadingListService_CreateReadingList now l ls) \<noteq> None
      \<longrightarrow> snd (snd (ReadingListService_CreateReadingList now l ls)) = ls)
   \<and> (fst (ReadingListService_UpdateReadingList now l ls) \<noteq> None
      \<longrightarrow> snd (snd (ReadingListService_UpdateReadingList now l ls)) = ls)
   \<and> (fst (ReadingListService_DeleteReadingList kl ls) \<noteq> None
      \<longrightarrow> snd (ReadingListService_DeleteReadingList kl ls) = ls)
   \<and> (fst (ReadingListService_AddBookToList now lid bid ls) \<noteq> None
      \<longrightarrow> snd (ReadingListService_AddBookToList now lid bid ls) = ls)
   \<and> (fst (ReadingListService_RemoveBookFromList now lid bid ls) \<noteq> None
      \<longrightarrow> snd (ReadingListService_RemoveBookFromList now lid bid ls) = ls)
   \<and> (fst (BookRepository_Create now b br) \<noteq> None
      \<longrightarrow> snd (snd (BookRepository_Create now b br)) = br)
   \<and> (fst (BookRepository_Update now b br) \<noteq> None
      \<longrightarrow> snd (snd (BookRepository_Update now b br)) = br)
   \<and> (fst (BookRepository_Delete kb br) \<noteq> None \<longrightarrow> snd (BookRepository_Delete kb br) = br)
   \<and> (fst (AuthorRepository_Create now a ar) \<noteq> None
      \<longrightarrow> snd (snd (AuthorRepository_Create now a ar)) = ar)
   \<and> (fst (AuthorRepository_Update now a ar) \<noteq> None
      \<longrightarrow> snd (snd (AuthorRepository_Update now a ar)) = ar)
   \<and> (fst (AuthorRepository_Delete ka ar) \<noteq> None \<longrightarrow> snd (AuthorRepository_Delete ka ar) = ar)
   \<and> (fst (ReadingListRepository_Create now l lr) \<noteq> None
      \<longrightarrow> snd (snd (ReadingListRepository_Create now l lr)) = lr)
   \<and> (fst (ReadingListRepository_Update now l lr) \<noteq> None
      \<longrightarrow> snd (snd (ReadingListRepository_Update now l lr)) = lr)
   \<and> (fst (ReadingListRepository_Delete kl lr) \<noteq> None
      \<longrightarrow> snd (ReadingListRepository_Delete kl lr) = lr)"
  using BookService_CreateBook_fails [of now b bs] BookService_UpdateBook_fails [of now b bs]
    BookService_DeleteBook_fails [of kb bs]
    AuthorService_CreateAuthor_fails [of now a as] AuthorService_UpdateAuthor_fails [of now a as]
    AuthorService_DeleteAuthor_fails [of ka as]
    ReadingListService_CreateReadingList_fails [of now l ls]
    ReadingListService_UpdateReadingList_fails [of now l ls]
    ReadingListService_DeleteReadingList_fails [of kl ls]
    ReadingListService_AddBookToList_fails [of now lid bid ls]
    ReadingListService_RemoveBookFromList_fails [of now lid bid ls]
    BookRepository_Create_fails [of now b br] BookRepository_Update_fails [of now b br]
    BookRepository_Delete_fails [of kb br]
    AuthorRepository_Create_fails [of now a ar] AuthorRepository_Update_fails [of now a ar]
    AuthorRepository_Delete_fails [of ka ar]
    ReadingListRepository_Create_fails [of now l lr] ReadingListRepository_Update_fails [of now l lr]
    ReadingListRepository_Delete_fails [of kl lr]
  by blast

theorem C10_error_atomicity_witness:
  "fst (BookService_CreateBook 9 (book0\<lparr>Title := []\<rparr>) (NewBookService bookrepo0)) \<noteq> None
   \<and> snd (snd (BookService_CreateBook 9 (book0\<lparr>Title := []\<rparr>) (NewBookService bookrepo0)))
       = NewBookService bookrepo0
   \<and> fst (BookService_CreateBook 9 (book0\<lparr>Book.ID := ''b2''\<rparr>) (NewBookService bookrepo0)) \<noteq> None
   \<and> snd (snd (BookService_CreateBook 9 (book0\<lparr>Book.ID := ''b2''\<rparr>) (NewBookService bookrepo0)))
       = NewBookService bookrepo0
   \<and> fst (BookService_UpdateBook 9 (book0\<lparr>Book.ID := ''b2''\<rparr>) (NewBookService bookrepo0)) \<noteq> None
   \<and> snd (snd (BookService_UpdateBook 9 (book0\<lparr>Book.ID := ''b2''\<rparr>) (NewBookService bookrepo0)))
       = NewBookService bookrepo0
   \<and> fst (BookService_DeleteBook ''b2'' (NewBookService bookrepo0)) \<noteq> None
   \<and> snd (BookService_DeleteBook ''b2'' (NewBookService bookrepo0)) = NewBookService bookrepo0
   \<and> fst (AuthorService_CreateAuthor 9 (author0\<lparr>Author.Name := []\<rparr>)
            (NewAuthorService NewAuthorRepository)) \<noteq> None
   \<and> fst (AuthorService_UpdateAuthor 9 author0 (NewAuthorService NewAuthorRepository)) \<noteq> None
   \<and> fst (AuthorService_DeleteAuthor ''a1'' (NewAuthorService NewAuthorRepository)) \<noteq> None
   \<and> fst (ReadingListService_CreateReadingList 9 list0 listsvc0) \<noteq> None
   \<and> snd (snd (ReadingListService_CreateReadingList 9 list0 listsvc0)) = listsvc0
   \<and> fst (ReadingListService_UpdateReadingList 9 (list0\<lparr>ReadingList.ID := ''list-9''\<rparr>) listsvc0)
        \<noteq> None
   \<and> fst (ReadingListService_DeleteReadingList ''list-9'' listsvc0) \<noteq> None
   \<and> fst (ReadingListService_AddBookToList 9 ''list-1'' ''b1'' listsvc0) \<noteq> None
   \<and> snd (ReadingListService_AddBookToList 9 ''list-1'' ''b1'' listsvc0) = listsvc0
   \<and> fst (ReadingListService_RemoveBookFromList 9 ''list-1'' ''zz'' listsvc0) \<noteq> None
   \<and> snd (ReadingListService_RemoveBookFromList 9 ''list-1'' ''zz'' listsvc0) = listsvc0
   \<and> fst (BookRepository_Create 9 book0 bookrepo0) \<noteq> None
   \<and> snd (snd (BookRepository_Create 9 book0 bookrepo0)) = bookrepo0
   \<and> fst (BookRepository_Update 9 (book0\<lparr>Book.ID := ''b2''\<rparr>) bookrepo0) \<noteq> None
   \<and> snd (snd (BookRepository_Update 9 (book0\<lparr>Book.ID := ''b2''\<rparr>) bookrepo0)) = bookrepo0"
proof -
  have f1: "fst (BookService_CreateBook 9 (book0\<lparr>Title := []\<rparr>) (NewBookService bookrepo0)) \<noteq> None"
    by code_simp
  have f2: "fst (BookService_CreateBook 9 (book0\<lparr>Book.ID := ''b2''\<rparr>) (NewBookService bookrepo0)) \<noteq> None"
    by code_simp
  have f3: "fst (BookService_UpdateBook 9 (book0\<lparr>Book.ID := ''b2''\<rparr>) (NewBookService bookrepo0)) \<noteq> None"
    by code_simp
  have f4: "fst (BookService_DeleteBook ''b2'' (NewBookService bookrepo0)) \<noteq> None"
    by code_simp
  have f5: "fst (AuthorService_CreateAuthor 9 (author0\<lparr>Author.Name := []\<rparr>)
            (NewAuthorService NewAuthorRepository)) \<noteq> None"
    by code_simp
  have f6: "fst (AuthorService_UpdateAuthor 9 author0 (NewAuthorService NewAuthorRepository)) \<noteq> None"
    by code_simp
  have f7: "fst (AuthorService_DeleteAuthor ''a1'' (NewAuthorService NewAuthorRepository)) \<noteq> None"
    by code_simp
  have f8: "fst (ReadingListService_CreateReadingList 9 list0 listsvc0) \<noteq> None"
    by code_simp
  have f9: "fst (ReadingListService_UpdateReadingList 9 (list0\<lparr>ReadingList.ID := ''list-9''\<rparr>) listsvc0)
        \<noteq> None"
    by code_simp
  have f10: "fst (ReadingListService_DeleteReadingList ''list-9'' listsvc0) \<noteq> None"
    by code_simp
  have f11: "fst (ReadingListService_AddBookToList 9 ''list-1'' ''b1'' listsvc0) \<noteq> None"
    by code_simp
  have f12: "fst (ReadingListService_RemoveBookFromList 9 ''list-1'' ''zz'' listsvc0) \<noteq> None"
    by code_simp
  have f13: "fst (BookRepository_Create 9 book0 bookrepo0) \<noteq> None"
    by code_simp
  have f14: "fst (BookRepository_Update 9 (book0\<lparr>Book.ID := ''b2''\<rparr>) bookrepo0) \<noteq> None"
    by code_simp
  note I1 = C10_error_atomicity [where now = 9 and b = "book0\<lparr>Title := []\<rparr>"
        and bs = "NewBookService bookrepo0" and kb = "''b2''"
        and a = "author0\<lparr>Author.Name := []\<rparr>" and as = "NewAuthorService NewAuthorRepository"
        and ka = "''a1''" and l = list0 and ls = listsvc0 and kl = "''list-9''"
        and lid = "''list-1''" and bid = "''b1''" and br = bookrepo0]
  note I2 = C10_error_atomicity [where now = 9 and b = "book0\<lparr>Book.ID := ''b2''\<rparr>"
        and bs = "NewBookService bookrepo0" and a = author0
        and as = "NewAuthorService NewAuthorRepository"
        and l = "list0\<lparr>ReadingList.ID := ''list-9''\<rparr>" and ls = listsvc0
        and lid = "''list-1''" and bid = "''zz''" and br = bookrepo0]
  note I3 = C10_error_atomicity [where now = 9 and b = book0 and br = bookrepo0]
  have c1: "snd (snd (BookService_CreateBook 9 (book0\<lparr>Title := []\<rparr>) (NewBookService bookrepo0)))
       = NewBookService bookrepo0"
    using I1 f1 by simp
  have c2: "snd (snd (BookService_CreateBook 9 (book0\<lparr>Book.ID := ''b2''\<rparr>) (NewBookService bookrepo0)))
       = NewBookService bookrepo0"
    using I2 f2 by simp
  have c3: "snd (snd (BookService_UpdateBook 9 (book0\<lparr>Book.ID := ''b2''\<rparr>) (NewBookService bookrepo0)))
       = NewBookService bookrepo0"
    using I2 f3 by simp
  have c4: "snd (BookService_DeleteBook ''b2'' (NewBookService bookrepo0)) = NewBookService bookrepo0"
    using I1 f4 by simp
  have c8: "snd (snd (ReadingListService_CreateReadingList 9 list0 listsvc0)) = listsvc0"
    using I1 f8 by simp
  have c11: "snd (ReadingListService_AddBookToList 9 ''list-1'' ''b1'' listsvc0) = listsvc0"
    using I1 f11 by simp
  have c12: "snd (ReadingListService_RemoveBookFromList 9 ''list-1'' ''zz'' listsvc0) = listsvc0"
    using I2 f12 by simp
  have c13: "snd (snd (BookRepository_Create 9 book0 bookrepo0)) = bookrepo0"
    using I3 f13 by simp
  have c14: "snd (snd (BookRepository_Update 9 (book0\<lparr>Book.ID := ''b2''\<rparr>) bookrepo0)) = bookrepo0"
    using I2 f14 by simp
  show ?thesis
    using f1 f2 f3 f4 f5 f6 f7 f8 f9 f10 f11 f12 f13 f14 c1 c2 c3 c4 c8 c11 c12 c13 c14
    by simp
qed

subsection \<open>Adding a book to a reading list and removing it\<close>

lemma ReadingList_AddBook_eq:
  "ReadingList_AddBook r bookID =
     (if bookID \<in> set (BookIDs r) then (False, r)
      else (True, r\<lparr>BookIDs := BookIDs r @ [bookID]\<rparr>))"
  by (simp add: ReadingList_AddBook_def AddBook_loop_iff)

lemma ReadingList_RemoveBook_absent:
  "bookID \<notin> set (BookIDs r) \<Longrightarrow> ReadingList_RemoveBook r bookID = (False, r)"
  using RemoveBook_index_None [of "BookIDs r" bookID 0]
  by (simp add: ReadingList_RemoveBook_def)

lemma ReadingList_RemoveBook_member:
  assumes mem: "bookID \<in> set (BookIDs r)"
  shows "\<exists>before after.
           BookIDs r = before @ bookID # after \<and> bookID \<notin> set before
           \<and> ReadingList_RemoveBook r bookID = (True, r\<lparr>BookIDs := before @ after\<rparr>)"
proof -
  from mem obtain j where j: "RemoveBook_index (BookIDs r) bookID 0 = Some j"
    using RemoveBook_index_None [of "BookIDs r" bookID 0]
    by (cases "RemoveBook_index (BookIDs r) bookID 0") auto
  let ?b = "take j (BookIDs r)" and ?a = "drop (j + 1) (BookIDs r)"
  from RemoveBook_split [OF j] have s: "BookIDs r = ?b @ bookID # ?a" "bookID \<notin> set ?b" by auto
  have rm: "ReadingList_RemoveBook r bookID = (True, r\<lparr>BookIDs := ?b @ ?a\<rparr>)"
    using j by (simp add: ReadingList_RemoveBook_def)
  from s rm show ?thesis by blast
qed

lemma ReadingListRepository_Get_eq:
  "ReadingListRepository_Get r k =
     (case DAList.lookup (lists r) k of None \<Rightarrow> Inl repository_ErrReadingListNotFound
      | Some l \<Rightarrow> Inr l)"
  by (simp add: ReadingListRepository_Get_def split: option.splits)

lemma ReadingListRepository_Update_stored:
  "DAList.lookup (lists r) (ReadingList.ID l) = Some old \<Longrightarrow>
   ReadingListRepository_Update now l r =
     (None, l\<lparr>ReadingList.CreatedAt := ReadingList.CreatedAt old, ReadingList.UpdatedAt := now\<rparr>,
      r\<lparr>lists := DAList.update (ReadingList.ID l)
                    (l\<lparr>ReadingList.CreatedAt := ReadingList.CreatedAt old,
                       ReadingList.UpdatedAt := now\<rparr>) (lists r)\<rparr>)"
  by (simp add: ReadingListRepository_Update_def Let_def)

lemma AddBookToList_cases:
  assumes inv: "ReadingListRepository_inv (ReadingListService.repo s)"
  shows "ReadingListService_AddBookToList now listID bookID s =
     (case DAList.lookup (books (bookRepo s)) bookID of
        None \<Rightarrow> (Some service_ErrBookNotFound, s)
      | Some book \<Rightarrow>
          (case DAList.lookup (lists (ReadingListService.repo s)) listID of
             None \<Rightarrow> (Some service_ErrReadingListNotFound, s)
           | Some list \<Rightarrow>
               if bookID \<in> set (BookIDs list) then (Some service_ErrBookAlreadyInList, s)
               else (None,
                     s\<lparr>ReadingListService.repo := (ReadingListService.repo s)
                         \<lparr>lists := DAList.update listID
                            (list\<lparr>BookIDs := BookIDs list @ [bookID],
                                  ReadingList.UpdatedAt := now\<rparr>)
                            (lists (ReadingListService.repo s))\<rparr>\<rparr>)))"
proof (cases "DAList.lookup (books (bookRepo s)) bookID")
  case None
  then show ?thesis
    by (simp add: ReadingListService_AddBookToList_def BookRepository_Get_def)
next
  case (Some book)
  note book = this
  show ?thesis
  proof (cases "DAList.lookup (lists (ReadingListService.repo s)) listID")
    case None
    with book show ?thesis
      by (simp add: ReadingListService_AddBookToList_def BookRepository_Get_def
          ReadingListRepository_Get_eq)
  next
    case (Some list)
    from ReadingListRepository_inv_lookup [OF inv Some] have id: "ReadingList.ID list = listID" .
    show ?thesis
    proof (cases "bookID \<in> set (BookIDs list)")
      case True
      with book Some show ?thesis
        by (simp add: ReadingListService_AddBookToList_def BookRepository_Get_def
            ReadingListRepository_Get_eq ReadingList_AddBook_eq)
    next
      case False
      let ?l = "list\<lparr>BookIDs := BookIDs list @ [bookID]\<rparr>"
      have "DAList.lookup (lists (ReadingListService.repo s)) (ReadingList.ID ?l) = Some list"
        using Some id by simp
      from ReadingListRepository_Update_stored [OF this, of now]
      show ?thesis using book Some False id
        by (simp add: ReadingListService_AddBookToList_def BookRepository_Get_def
            ReadingListRepository_Get_eq ReadingList_AddBook_eq)
    qed
  qed
qed

lemma RemoveBookFromList_absent:
  "DAList.lookup (lists (ReadingListService.repo s)) listID = None \<Longrightarrow>
   ReadingListService_RemoveBookFromList now listID bookID s
     = (Some service_ErrReadingListNotFound, s)"
  by (simp add: ReadingListService_RemoveBookFromList_def ReadingListRepository_Get_eq)

lemma RemoveBookFromList_not_member:
  "DAList.lookup (lists (ReadingListService.repo s)) listID = Some list \<Longrightarrow>
   bookID \<notin> set (BookIDs list) \<Longrightarrow>
   ReadingListService_RemoveBookFromList now listID bookID s = (Some service_ErrBookNotInList, s)"
  by (simp add: ReadingListService_RemoveBookFromList_def ReadingListRepository_Get_eq
      ReadingList_RemoveBook_absent)

lemma RemoveBookFromList_member:
  assumes inv: "ReadingListRepository_inv (ReadingListService.repo s)"
    and stored: "DAList.lookup (lists (ReadingListService.repo s)) listID = Some list"
    and mem: "bookID \<in> set (BookIDs list)"
  shows "\<exists>before after.
      BookIDs list = before @ bookID # after \<and> bookID \<notin> set before
      \<and> ReadingListService_RemoveBookFromList now listID bookID s =
          (None,
           s\<lparr>ReadingListService.repo := (ReadingListService.repo s)
               \<lparr>lists := DAList.update listID
                  (list\<lparr>BookIDs := before @ after, ReadingList.UpdatedAt := now\<rparr>)
                  (lists (ReadingListService.repo s))\<rparr>\<rparr>)"
proof -
  from ReadingListRepository_inv_lookup [OF inv stored] have id: "ReadingList.ID list = listID" .
  from ReadingList_RemoveBook_member [OF mem] obtain before after where
    h: "BookIDs list = before @ bookID # after" "bookID \<notin> set before"
       "ReadingList_RemoveBook list bookID = (True, list\<lparr>BookIDs := before @ after\<rparr>)"
    by blast
  let ?l = "list\<lparr>BookIDs := before @ after\<rparr>"
  have "DAList.lookup (lists (ReadingListService.repo s)) (ReadingList.ID ?l) = Some list"
    using stored id by simp
  from ReadingListRepository_Update_stored [OF this, of now]
  have "ReadingListService_RemoveBookFromList now listID bookID s =
          (None,
           s\<lparr>ReadingListService.repo := (ReadingListService.repo s)
               \<lparr>lists := DAList.update listID
                  (list\<lparr>BookIDs := before @ after, ReadingList.UpdatedAt := now\<rparr>)
                  (lists (ReadingListService.repo s))\<rparr>\<rparr>)"
    using stored h(3) id
    by (simp add: ReadingListService_RemoveBookFromList_def ReadingListRepository_Get_eq)
  with h(1,2) show ?thesis by blast
qed

text \<open>
  C2. \<open>AddBookToList\<close> fails with \<open>ErrBookNotFound\<close> when the book repository does
  not hold the book id, whatever the list; otherwise with \<open>ErrReadingListNotFound\<close> when
  the list repository does not hold the list id; otherwise with \<open>ErrBookAlreadyInList\<close>
  when the id is a member of the list; otherwise it succeeds and the stored list is the
  old one with the id appended and \<open>UpdatedAt\<close> set to the clock reading.
  \<open>RemoveBookFromList\<close> fails with \<open>ErrReadingListNotFound\<close> when the list id is
  absent; otherwise with \<open>ErrBookNotInList\<close> when the id is not a member; otherwise it
  succeeds and the stored list is the old one without the first occurrence of the id.
  A failing call leaves the service as it was.
\<close>

theorem C2_list_membership_errors:
  assumes inv: "ReadingListRepository_inv (ReadingListService.repo s)"
  shows
  "(DAList.lookup (books (bookRepo s)) bookID = None \<longrightarrow>
      ReadingListService_AddBookToList now listID bookID s = (Some service_ErrBookNotFound, s))
   \<and> (DAList.lookup (books (bookRepo s)) bookID \<noteq> None
        \<and> DAList.lookup (lists (ReadingListService.repo s)) listID = None \<longrightarrow>
      ReadingListService_AddBookToList now listID bookID s
        = (Some service_ErrReadingListNotFound, s))
   \<and> (\<forall>list. DAList.lookup (books (bookRepo s)) bookID \<noteq> None
        \<and> DAList.lookup (lists (ReadingListService.repo s)) listID = Some list \<longrightarrow>
        (bookID \<in> set (BookIDs list) \<longrightarrow>
           ReadingListService_AddBookToList now listID bookID s
             = (Some service_ErrBookAlreadyInList, s))
        \<and> (bookID \<notin> set (BookIDs list) \<longrightarrow>
           ReadingListService_AddBookToList now listID bookID s =
             (None,
              s\<lparr>ReadingListService.repo := (ReadingListService.repo s)
                  \<lparr>lists := DAList.update listID
                     (list\<lparr>BookIDs := BookIDs list @ [bookID], ReadingList.UpdatedAt := now\<rparr>)
                     (lists (ReadingListService.repo s))\<rparr>\<rparr>)))
   \<and> (DAList.lookup (lists (ReadingListService.repo s)) listID = None \<longrightarrow>
      ReadingListService_RemoveBookFromList now listID bookID s
        = (Some service_ErrReadingListNotFound, s))
   \<and> (\<forall>list. DAList.lookup (lists (ReadingListService.repo s)) listID = Some list \<longrightarrow>
        (bookID \<notin> set (BookIDs list) \<longrightarrow>
           ReadingListService_RemoveBookFromList now listID bookID s
             = (Some service_ErrBookNotInList, s))
        \<and> (bookID \<in> set (BookIDs list) \<longrightarrow>
           (\<exists>before after.
              BookIDs list = before @ bookID # after \<and> bookID \<notin> set before
              \<and> ReadingListService_RemoveBookFromList now listID bookID s =
                  (None,
                   s\<lparr>ReadingListService.repo := (ReadingListService.repo s)
                       \<lparr>lists := DAList.update listID
                          (list\<lparr>BookIDs := before @ after, ReadingList.UpdatedAt := now\<rparr>)
                          (lists (ReadingListService.repo s))\<rparr>\<rparr>))))"
proof -
  note add = AddBookToList_cases [OF inv, of now listID bookID]
  have a1: "DAList.lookup (books (bookRepo s)) bookID = None \<longrightarrow>
      ReadingListService_AddBookToList now listID bookID s = (Some service_ErrBookNotFound, s)"
    using add by simp
  have a2: "DAList.lookup (books (bookRepo s)) bookID \<noteq> None
        \<and> DAList.lookup (lists (ReadingListService.repo s)) listID = None \<longrightarrow>
      ReadingListService_AddBookToList now listID bookID s
        = (Some service_ErrReadingListNotFound, s)"
    using add by auto
  have a3: "\<forall>list. DAList.lookup (books (bookRepo s)) bookID \<noteq> None
        \<and> DAList.lookup (lists (ReadingListService.repo s)) listID = Some list \<longrightarrow>
        (bookID \<in> set (BookIDs list) \<longrightarrow>
           ReadingListService_AddBookToList now listID bookID s
             = (Some service_ErrBookAlreadyInList, s))
        \<and> (bookID \<notin> set (BookIDs list) \<longrightarrow>
           ReadingListService_AddBookToList now listID bookID s =
             (None,
              s\<lparr>ReadingListService.repo := (ReadingListService.repo s)
                  \<lparr>lists := DAList.update listID
                     (list\<lparr>BookIDs := BookIDs list @ [bookID], ReadingList.UpdatedAt := now\<rparr>)
                     (lists (ReadingListService.repo s))\<rparr>\<rparr>))"
    using add by auto
  show ?thesis
    using a1 a2 a3 RemoveBookFromList_absent [of s listID now bookID]
      RemoveBookFromList_not_member [of s listID _ bookID now]
      RemoveBookFromList_member [OF inv, of listID _ bookID now]
    by blast
qed

subsection \<open>Lists are stored under their own identifier\<close>

lemma ReadingListRepository_inv_New: "ReadingListRepository_inv NewReadingListRepository"
  by (simp add: ReadingListRepository_inv_def NewReadingListRepository_def empty.rep_eq)

lemma ReadingListRepository_inv_iff:
  "ReadingListRepository_inv r \<longleftrightarrow>
     (\<forall>k l. DAList.lookup (lists r) k = Some l \<longrightarrow> ReadingList.ID l = k)"
  by (simp add: ReadingListRepository_inv_def all_entries_iff_lookup)

lemma ReadingListRepository_inv_Create:
  "ReadingListRepository_inv r \<Longrightarrow>
     ReadingListRepository_inv (snd (snd (ReadingListRepository_Create now l r)))"
  by (auto simp add: ReadingListRepository_inv_iff ReadingListRepository_Create_def Let_def
      DAList.lookup_update split: option.splits if_splits)

lemma ReadingListRepository_inv_Update:
  "ReadingListRepository_inv r \<Longrightarrow>
     ReadingListRepository_inv (snd (snd (ReadingListRepository_Update now l r)))"
  by (auto simp add: ReadingListRepository_inv_iff ReadingListRepository_Update_def Let_def
      DAList.lookup_update split: option.splits if_splits)

lemma ReadingListRepository_inv_Delete:
  "ReadingListRepository_inv r \<Longrightarrow>
     ReadingListRepository_inv (snd (ReadingListRepository_Delete k r))"
  by (auto simp add: ReadingListRepository_inv_iff ReadingListRepository_Delete_def
      split: option.splits if_splits)

theorem C2_list_membership_errors_witness:
  "ReadingListRepository_inv (ReadingListService.repo listsvc0)
   \<and> ReadingListService_AddBookToList 9 ''list-1'' ''zz'' listsvc0
       = (Some service_ErrBookNotFound, listsvc0)
   \<and> ReadingListService_AddBookToList 9 ''list-9'' ''b1'' listsvc0
       = (Some service_ErrReadingListNotFound, listsvc0)
   \<and> ReadingListService_AddBookToList 9 ''list-1'' ''b1'' listsvc0
       = (Some service_ErrBookAlreadyInList, listsvc0)
   \<and> ReadingListService_RemoveBookFromList 9 ''list-9'' ''b1'' listsvc0
       = (Some service_ErrReadingListNotFound, listsvc0)
   \<and> ReadingListService_RemoveBookFromList 9 ''list-1'' ''zz'' listsvc0
       = (Some service_ErrBookNotInList, listsvc0)
   \<and> fst (ReadingListService_RemoveBookFromList 9 ''list-1'' ''b1'' listsvc0) = None"
proof -
  have inv: "ReadingListRepository_inv (ReadingListService.repo listsvc0)"
    by code_simp
  have l1: "DAList.lookup (lists (ReadingListService.repo listsvc0)) ''list-1'' = Some list0"
    by (simp add: listsvc0_def NewReadingListService_def listrepo0_def)
  have l9: "DAList.lookup (lists (ReadingListService.repo listsvc0)) ''list-9'' = None"
    by (simp add: listsvc0_def NewReadingListService_def listrepo0_def)
  have b1: "DAList.lookup (books (bookRepo listsvc0)) ''b1'' \<noteq> None"
    by (simp add: listsvc0_def NewReadingListService_def bookrepo0_def)
  have bz: "DAList.lookup (books (bookRepo listsvc0)) ''zz'' = None"
    by (simp add: listsvc0_def NewReadingListService_def bookrepo0_def)
  have ids: "BookIDs list0 = [''b1'', ''b2'']" by (simp add: list0_def)
  show ?thesis
    using inv l1 l9 b1 bz ids
      C2_list_membership_errors [OF inv, of "''zz''" 9 "''list-1''"]
      C2_list_membership_errors [OF inv, of "''b1''" 9 "''list-9''"]
      C2_list_membership_errors [OF inv, of "''b1''" 9 "''list-1''"]
    by auto
qed

subsection \<open>Timestamps of the book repository\<close>

lemma clock_readings_Nil: "clock_readings [] = []"
  by (simp add: clock_readings_def)

lemma clock_readings_Cons: "clock_readings (c # calls) = call_readings c @ clock_readings calls"
  by (simp add: clock_readings_def)

lemma clock_readings_append:
  "clock_readings (calls1 @ calls2) = clock_readings calls1 @ clock_readings calls2"
  by (simp add: clock_readings_def)

lemma sorted_readings_split:
  assumes "sorted (rs1 @ rs2)"
  shows "\<exists>t::time. sorted (t # rs1) \<and> sorted (last (t # rs1) # rs2)"
proof (cases rs1)
  case Nil
  show ?thesis
  proof (cases rs2)
    case Nil
    with \<open>rs1 = []\<close> show ?thesis by simp
  next
    case (Cons x xs)
    with \<open>rs1 = []\<close> assms have "sorted (x # rs1) \<and> sorted (last (x # rs1) # rs2)" by simp
    then show ?thesis ..
  qed
next
  case (Cons x xs)
  with assms have "sorted (x # rs1)" by (auto simp add: sorted_append)
  moreover from assms Cons have "sorted (last (x # rs1) # rs2)"
    by (auto simp add: sorted_append)
  ultimately show ?thesis by blast
qed

lemma BookRepository_Create_ok:
  "BookRepository_Create now b r = (None, b', r') \<Longrightarrow>
     DAList.lookup (books r) (Book.ID b) = None
     \<and> b' = b\<lparr>Book.CreatedAt := now, Book.UpdatedAt := now\<rparr>
     \<and> r' = r\<lparr>books := DAList.update (Book.ID b) b' (books r)\<rparr>"
  by (auto simp add: BookRepository_Create_def Let_def split: option.splits)

lemma BookRepository_Update_ok:
  "BookRepository_Update now b r = (None, b', r') \<Longrightarrow>
     (\<exists>old. DAList.lookup (books r) (Book.ID b) = Some old
        \<and> b' = b\<lparr>Book.CreatedAt := Book.CreatedAt old, Book.UpdatedAt := now\<rparr>)
     \<and> r' = r\<lparr>books := DAList.update (Book.ID b) b' (books r)\<rparr>"
  by (auto simp add: BookRepository_Update_def Let_def split: option.splits)

lemma BookRepository_Create_lookup:
  "DAList.lookup (books (snd (snd (BookRepository_Create now b r)))) k =
     (if Book.ID b = k \<and> DAList.lookup (books r) k = None
      then Some (b\<lparr>Book.CreatedAt := now, Book.UpdatedAt := now\<rparr>)
      else DAList.lookup (books r) k)"
  by (auto simp add: BookRepository_Create_def Let_def DAList.lookup_update split: option.splits)

lemma BookRepository_Update_lookup:
  "DAList.lookup (books (snd (snd (BookRepository_Update now b r)))) k =
     (if Book.ID b = k
      then map_option (\<lambda>old. b\<lparr>Book.CreatedAt := Book.CreatedAt old, Book.UpdatedAt := now\<rparr>)
             (DAList.lookup (books r) k)
      else DAList.lookup (books r) k)"
  by (auto simp add: BookRepository_Update_def Let_def DAList.lookup_update split: option.splits)

lemma BookRepository_Delete_lookup:
  "DAList.lookup (books (snd (BookRepository_Delete k' r))) k =
     (if k' = k then None else DAList.lookup (books r) k)"
  by (auto simp add: BookRepository_Delete_def split: option.splits)

lemmas BookRepository_lookups =
  BookRepository_Create_lookup BookRepository_Update_lookup BookRepository_Delete_lookup

lemma BookRepository_stamped_iff:
  "BookRepository_stamped r t \<longleftrightarrow>
     (\<forall>k e. DAList.lookup (books r) k = Some e \<longrightarrow>
        Book.CreatedAt e \<le> Book.UpdatedAt e \<and> Book.UpdatedAt e \<le> t)"
  by (simp add: BookRepository_stamped_def all_entries_iff_lookup)

lemma BookRepository_stamped_step:
  assumes "BookRepository_stamped r t" and "sorted (t # call_readings c)"
  shows "BookRepository_stamped (BookRepository_step r c) (last (t # call_readings c))"
  using assms
  by (cases c)
     (auto simp add: BookRepository_stamped_iff BookRepository_lookups split: if_splits,
      (meson order_trans)+)

lemma BookRepository_stamped_run:
  "BookRepository_stamped r t \<Longrightarrow> sorted (t # clock_readings calls) \<Longrightarrow>
     BookRepository_stamped (BookRepository_run r calls) (last (t # clock_readings calls))"
proof (induction calls arbitrary: r t)
  case Nil
  then show ?case by (simp add: BookRepository_run_def clock_readings_Nil)
next
  case (Cons c calls)
  let ?t = "last (t # call_readings c)"
  from Cons.prems(2) have s1: "sorted (t # call_readings c)"
    and s2: "sorted (?t # clock_readings calls)"
    by (cases c; simp add: clock_readings_Cons)+
  from BookRepository_stamped_step [OF Cons.prems(1) s1]
  have "BookRepository_stamped (BookRepository_step r c) ?t" .
  from Cons.IH [OF this s2]
  have "BookRepository_stamped (BookRepository_run (BookRepository_step r c) calls)
          (last (?t # clock_readings calls))" .
  moreover have "last (?t # clock_readings calls) = last (t # clock_readings (c # calls))"
    by (cases c; simp add: clock_readings_Cons)
  ultimately show ?case by (simp add: BookRepository_run_def)
qed

lemma BookRepository_run_written:
  "sorted (t # clock_readings calls) \<Longrightarrow>
   DAList.lookup (books (BookRepository_run r calls)) k = Some e2 \<Longrightarrow>
     DAList.lookup (books r) k = Some e2 \<or> t \<le> Book.UpdatedAt e2"
proof (induction calls arbitrary: r t)
  case Nil
  then show ?case by (simp add: BookRepository_run_def)
next
  case (Cons c calls)
  let ?t = "last (t # call_readings c)"
  from Cons.prems(1) have s1: "sorted (t # call_readings c)"
    and s2: "sorted (?t # clock_readings calls)"
    by (cases c; simp add: clock_readings_Cons)+
  from s1 have le: "t \<le> ?t" by (cases c) auto
  from Cons.prems(2)
  have "DAList.lookup (books (BookRepository_run (BookRepository_step r c) calls)) k = Some e2"
    by (simp add: BookRepository_run_def)
  from Cons.IH [OF s2 this]
  consider "DAList.lookup (books (BookRepository_step r c)) k = Some e2" | "?t \<le> Book.UpdatedAt e2"
    by blast
  then show ?case
  proof cases
    case 1
    then show ?thesis using s1
      by (cases c) (auto simp add: BookRepository_lookups split: if_splits)
  next
    case 2
    with le show ?thesis by simp
  qed
qed

lemma BookRepository_run_created:
  "Call_Delete k \<notin> set calls \<Longrightarrow> DAList.lookup (books r) k = Some e1 \<Longrightarrow>
     \<exists>e2. DAList.lookup (books (BookRepository_run r calls)) k = Some e2
          \<and> Book.CreatedAt e2 = Book.CreatedAt e1"
proof (induction calls arbitrary: r e1)
  case Nil
  then show ?case by (simp add: BookRepository_run_def)
next
  case (Cons c calls)
  from Cons.prems have "\<exists>e. DAList.lookup (books (BookRepository_step r c)) k = Some e
      \<and> Book.CreatedAt e = Book.CreatedAt e1"
    by (cases c) (auto simp add: BookRepository_lookups)
  then obtain e where e: "DAList.lookup (books (BookRepository_step r c)) k = Some e"
    "Book.CreatedAt e = Book.CreatedAt e1" by blast
  from Cons.prems(1) have "Call_Delete k \<notin> set calls" by simp
  from Cons.IH [OF this e(1)] e(2) show ?case by (simp add: BookRepository_run_def)
qed

lemma BookRepository_run_append:
  "BookRepository_run r (calls1 @ calls2) = BookRepository_run (BookRepository_run r calls1) calls2"
  by (simp add: BookRepository_run_def)

lemma BookRepository_timestamps:
  "(BookRepository_Create now b r = (None, b', r') \<longrightarrow>
      DAList.lookup (books r') (Book.ID b) = Some b'
      \<and> Book.CreatedAt b' = now \<and> Book.UpdatedAt b' = now)
   \<and> (BookRepository_Update now b r = (None, b', r') \<longrightarrow>
      (\<exists>old. DAList.lookup (books r) (Book.ID b) = Some old
         \<and> DAList.lookup (books r') (Book.ID b) = Some b'
         \<and> Book.CreatedAt b' = Book.CreatedAt old \<and> Book.UpdatedAt b' = now))
   \<and> (sorted (clock_readings (calls1 @ calls2))
       \<and> DAList.lookup (books (BookRepository_run NewBookRepository calls1)) k = Some e1
       \<and> DAList.lookup (books (BookRepository_run NewBookRepository (calls1 @ calls2))) k = Some e2
       \<longrightarrow> Book.UpdatedAt e1 \<le> Book.UpdatedAt e2 \<and> Book.CreatedAt e2 \<le> Book.UpdatedAt e2
          \<and> (Call_Delete k \<notin> set calls2 \<longrightarrow> Book.CreatedAt e2 = Book.CreatedAt e1))"
proof -
  have create: "BookRepository_Create now b r = (None, b', r') \<longrightarrow>
      DAList.lookup (books r') (Book.ID b) = Some b'
      \<and> Book.CreatedAt b' = now \<and> Book.UpdatedAt b' = now"
    by (auto dest!: BookRepository_Create_ok)
  have update: "BookRepository_Update now b r = (None, b', r') \<longrightarrow>
      (\<exists>old. DAList.lookup (books r) (Book.ID b) = Some old
         \<and> DAList.lookup (books r') (Book.ID b) = Some b'
         \<and> Book.CreatedAt b' = Book.CreatedAt old \<and> Book.UpdatedAt b' = now)"
    by (auto dest!: BookRepository_Update_ok)
  have run: "Book.UpdatedAt e1 \<le> Book.UpdatedAt e2 \<and> Book.CreatedAt e2 \<le> Book.UpdatedAt e2
          \<and> (Call_Delete k \<notin> set calls2 \<longrightarrow> Book.CreatedAt e2 = Book.CreatedAt e1)"
    if srt: "sorted (clock_readings (calls1 @ calls2))"
      and l1: "DAList.lookup (books (BookRepository_run NewBookRepository calls1)) k = Some e1"
      and l2: "DAList.lookup (books (BookRepository_run NewBookRepository (calls1 @ calls2))) k = Some e2"
  proof -
    let ?r1 = "BookRepository_run NewBookRepository calls1"
    from srt obtain t where t: "sorted (t # clock_readings calls1)"
      "sorted (last (t # clock_readings calls1) # clock_readings calls2)"
      using sorted_readings_split [of "clock_readings calls1" "clock_readings calls2"]
      by (auto simp add: clock_readings_append)
    let ?t1 = "last (t # clock_readings calls1)"
    have new: "BookRepository_stamped NewBookRepository t"
      by (simp add: BookRepository_stamped_iff NewBookRepository_def)
    from BookRepository_stamped_run [OF new t(1)] have st1: "BookRepository_stamped ?r1 ?t1" .
    from BookRepository_stamped_run [OF st1 t(2)] l2
    have c2: "Book.CreatedAt e2 \<le> Book.UpdatedAt e2"
      by (simp add: BookRepository_stamped_iff BookRepository_run_append)
    from st1 l1 have u1: "Book.UpdatedAt e1 \<le> ?t1" by (simp add: BookRepository_stamped_iff)
    from l2 have l2': "DAList.lookup (books (BookRepository_run ?r1 calls2)) k = Some e2"
      by (simp add: BookRepository_run_append)
    from BookRepository_run_written [OF t(2) l2'] l1 u1
    have mono: "Book.UpdatedAt e1 \<le> Book.UpdatedAt e2" by auto
    have keep: "Book.CreatedAt e2 = Book.CreatedAt e1" if "Call_Delete k \<notin> set calls2"
      using BookRepository_run_created [OF that l1] l2' by auto
    from mono c2 keep show ?thesis by blast
  qed
  from create update run show ?thesis by blast
qed

subsection \<open>Timestamps of the author repository\<close>

lemma AuthorRepository_Create_ok:
  "AuthorRepository_Create now b r = (None, b', r') \<Longrightarrow>
     DAList.lookup (authors r) (Author.ID b) = None
     \<and> b' = b\<lparr>Author.CreatedAt := now, Author.UpdatedAt := now\<rparr>
     \<and> r' = r\<lparr>authors := DAList.update (Author.ID b) b' (authors r)\<rparr>"
  by (auto simp add: AuthorRepository_Create_def Let_def split: option.splits)

lemma AuthorRepository_Update_ok:
  "AuthorRepository_Update now b r = (None, b', r') \<Longrightarrow>
     (\<exists>old. DAList.lookup (authors r) (Author.ID b) = Some old
        \<and> b' = b\<lparr>Author.CreatedAt := Author.CreatedAt old, Author.UpdatedAt := now\<rparr>)
     \<and> r' = r\<lparr>authors := DAList.update (Author.ID b) b' (authors r)\<rparr>"
  by (auto simp add: AuthorRepository_Update_def Let_def split: option.splits)

lemma AuthorRepository_Create_lookup:
  "DAList.lookup (authors (snd (snd (AuthorRepository_Create now b r)))) k =
     (if Author.ID b = k \<and> DAList.lookup (authors r) k = None
      then Some (b\<lparr>Author.CreatedAt := now, Author.UpdatedAt := now\<rparr>)
      else DAList.lookup (authors r) k)"
  by (auto simp add: AuthorRepository_Create_def Let_def DAList.lookup_update split: option.splits)

lemma AuthorRepository_Update_lookup:
  "DAList.lookup (authors (snd (snd (AuthorRepository_Update now b r)))) k =
     (if Author.ID b = k
      then map_option (\<lambda>old. b\<lparr>Author.CreatedAt := Author.CreatedAt old, Author.UpdatedAt := now\<rparr>)
             (DAList.lookup (authors r) k)
      else DAList.lookup (authors r) k)"
  by (auto simp add: AuthorRepository_Update_def Let_def DAList.lookup_update split: option.splits)

lemma AuthorRepository_Delete_lookup:
  "DAList.lookup (authors (snd (AuthorRepository_Delete k' r))) k =
     (if k' = k then None else DAList.lookup (authors r) k)"
  by (auto simp add: AuthorRepository_Delete_def split: option.splits)

lemmas AuthorRepository_lookups =
  AuthorRepository_Create_lookup AuthorRepository_Update_lookup AuthorRepository_Delete_lookup

lemma AuthorRepository_stamped_iff:
  "AuthorRepository_stamped r t \<longleftrightarrow>
     (\<forall>k e. DAList.lookup (authors r) k = Some e \<longrightarrow>
        Author.CreatedAt e \<le> Author.UpdatedAt e \<and> Author.UpdatedAt e \<le> t)"
  by (simp add: AuthorRepository_stamped_def all_entries_iff_lookup)

lemma AuthorRepository_stamped_step:
  assumes "AuthorRepository_stamped r t" and "sorted (t # call_readings c)"
  shows "AuthorRepository_stamped (AuthorRepository_step r c) (last (t # call_readings c))"
  using assms
  by (cases c)
     (auto simp add: AuthorRepository_stamped_iff AuthorRepository_lookups split: if_splits,
      (meson order_trans)+)

lemma AuthorRepository_stamped_run:
  "AuthorRepository_stamped r t \<Longrightarrow> sorted (t # clock_readings calls) \<Longrightarrow>
     AuthorRepository_stamped (AuthorRepository_run r calls) (last (t # clock_readings calls))"
proof (induction calls arbitrary: r t)
  case Nil
  then show ?case by (simp add: AuthorRepository_run_def clock_readings_Nil)
next
  case (Cons c calls)
  let ?t = "last (t # call_readings c)"
  from Cons.prems(2) have s1: "sorted (t # call_readings c)"
    and s2: "sorted (?t # clock_readings calls)"
    by (cases c; simp add: clock_readings_Cons)+
  from AuthorRepository_stamped_step [OF Cons.prems(1) s1]
  have "AuthorRepository_stamped (AuthorRepository_step r c) ?t" .
  from Cons.IH [OF this s2]
  have "AuthorRepository_stamped (AuthorRepository_run (AuthorRepository_step r c) calls)
          (last (?t # clock_readings calls))" .
  moreover have "last (?t # clock_readings calls) = last (t # clock_readings (c # calls))"
    by (cases c; simp add: clock_readings_Cons)
  ultimately show ?case by (simp add: AuthorRepository_run_def)
qed

lemma AuthorRepository_run_written:
  "sorted (t # clock_readings calls) \<Longrightarrow>
   DAList.lookup (authors (AuthorRepository_run r calls)) k = Some e2 \<Longrightarrow>
     DAList.lookup (authors r) k = Some e2 \<or> t \<le> Author.UpdatedAt e2"
proof (induction calls arbitrary: r t)
  case Nil
  then show ?case by (simp add: AuthorRepository_run_def)
next
  case (Cons c calls)
  let ?t = "last (t # call_readings c)"
  from Cons.prems(1) have s1: "sorted (t # call_readings c)"
    and s2: "sorted (?t # clock_readings calls)"
    by (cases c; simp add: clock_readings_Cons)+
  from s1 have le: "t \<le> ?t" by (cases c) auto
  from Cons.prems(2)
  have "DAList.lookup (authors (AuthorRepository_run (AuthorRepository_step r c) calls)) k = Some e2"
    by (simp add: AuthorRepository_run_def)
  from Cons.IH [OF s2 this]
  consider "DAList.lookup (authors (AuthorRepository_step r c)) k = Some e2" | "?t \<le> Author.UpdatedAt e2"
    by blast
  then show ?case
  proof cases
    case 1
    then show ?thesis using s1
      by (cases c) (auto simp add: AuthorRepository_lookups split: if_splits)
  next
    case 2
    with le show ?thesis by simp
  qed
qed

lemma AuthorRepository_run_created:
  "Call_Delete k \<notin> set calls \<Longrightarrow> DAList.lookup (authors r) k = Some e1 \<Longrightarrow>
     \<exists>e2. DAList.lookup (authors (AuthorRepository_run r calls)) k = Some e2
          \<and> Author.CreatedAt e2 = Author.CreatedAt e1"
proof (induction calls arbitrary: r e1)
  case Nil
  then show ?case by (simp add: AuthorRepository_run_def)
next
  case (Cons c calls)
  from Cons.prems have "\<exists>e. DAList.lookup (authors (AuthorRepository_step r c)) k = Some e
      \<and> Author.CreatedAt e = Author.CreatedAt e1"
    by (cases c) (auto simp add: AuthorRepository_lookups)
  then obtain e where e: "DAList.lookup (authors (AuthorRepository_step r c)) k = Some e"
    "Author.CreatedAt e = Author.CreatedAt e1" by blast
  from Cons.prems(1) have "Call_Delete k \<notin> set calls" by simp
  from Cons.IH [OF this e(1)] e(2) show ?case by (simp add: AuthorRepository_run_def)
qed

lemma AuthorRepository_run_append:
  "AuthorRepository_run r (calls1 @ calls2) = AuthorRepository_run (AuthorRepository_run r calls1) calls2"
  by (simp add: AuthorRepository_run_def)

lemma AuthorRepository_timestamps:
  "(AuthorRepository_Create now b r = (None, b', r') \<longrightarrow>
      DAList.lookup (authors r') (Author.ID b) = Some b'
      \<and> Author.CreatedAt b' = now \<and> Author.UpdatedAt b' = now)
   \<and> (AuthorRepository_Update now b r = (None, b', r') \<longrightarrow>
      (\<exists>old. DAList.lookup (authors r) (Author.ID b) = Some old
         \<and> DAList.lookup (authors r') (Author.ID b) = Some b'
         \<and> Author.CreatedAt b' = Author.CreatedAt old \<and> Author.UpdatedAt b' = now))
   \<and> (sorted (clock_readings (calls1 @ calls2))
       \<and> DAList.lookup (authors (AuthorRepository_run NewAuthorRepository calls1)) k = Some e1
       \<and> DAList.lookup (authors (AuthorRepository_run NewAuthorRepository (calls1 @ calls2))) k = Some e2
       \<longrightarrow> Author.UpdatedAt e1 \<le> Author.UpdatedAt e2 \<and> Author.CreatedAt e2 \<le> Author.UpdatedAt e2
          \<and> (Call_Delete k \<notin> set calls2 \<longrightarrow> Author.CreatedAt e2 = Author.CreatedAt e1))"
proof -
  have create: "AuthorRepository_Create now b r = (None, b', r') \<longrightarrow>
      DAList.lookup (authors r') (Author.ID b) = Some b'
      \<and> Author.CreatedAt b' = now \<and> Author.UpdatedAt b' = now"
    by (auto dest!: AuthorRepository_Create_ok)
  have update: "AuthorRepository_Update now b r = (None, b', r') \<longrightarrow>
      (\<exists>old. DAList.lookup (authors r) (Author.ID b) = Some old
         \<and> DAList.lookup (authors r') (Author.ID b) = Some b'
         \<and> Author.CreatedAt b' = Author.CreatedAt old \<and> Author.UpdatedAt b' = now)"
    by (auto dest!: AuthorRepository_Update_ok)
  have run: "Author.UpdatedAt e1 \<le> Author.UpdatedAt e2 \<and> Author.CreatedAt e2 \<le> Author.UpdatedAt e2
          \<and> (Call_Delete k \<notin> set calls2 \<longrightarrow> Author.CreatedAt e2 = Author.CreatedAt e1)"
    if srt: "sorted (clock_readings (calls1 @ calls2))"
      and l1: "DAList.lookup (authors (AuthorRepository_run NewAuthorRepository calls1)) k = Some e1"
      and l2: "DAList.lookup (authors (AuthorRepository_run NewAuthorRepository (calls1 @ calls2))) k = Some e2"
  proof -
    let ?r1 = "AuthorRepository_run NewAuthorRepository calls1"
    from srt obtain t where t: "sorted (t # clock_readings calls1)"
      "sorted (last (t # clock_readings calls1) # clock_readings calls2)"
      using sorted_readings_split [of "clock_readings calls1" "clock_readings calls2"]
      by (auto simp add: clock_readings_append)
    let ?t1 = "last (t # clock_readings calls1)"
    have new: "AuthorRepository_stamped NewAuthorRepository t"
      by (simp add: AuthorRepository_stamped_iff NewAuthorRepository_def)
    from AuthorRepository_stamped_run [OF new t(1)] have st1: "AuthorRepository_stamped ?r1 ?t1" .
    from AuthorRepository_stamped_run [OF st1 t(2)] l2
    have c2: "Author.CreatedAt e2 \<le> Author.UpdatedAt e2"
      by (simp add: AuthorRepository_stamped_iff AuthorRepository_run_append)
    from st1 l1 have u1: "Author.UpdatedAt e1 \<le> ?t1" by (simp add: AuthorRepository_stamped_iff)
    from l2 have l2': "DAList.lookup (authors (AuthorRepository_run ?r1 calls2)) k = Some e2"
      by (simp add: AuthorRepository_run_append)
    from AuthorRepository_run_written [OF t(2) l2'] l1 u1
    have mono: "Author.UpdatedAt e1 \<le> Author.UpdatedAt e2" by auto
    have keep: "Author.CreatedAt e2 = Author.CreatedAt e1" if "Call_Delete k \<notin> set calls2"
      using AuthorRepository_run_created [OF that l1] l2' by auto
    from mono c2 keep show ?thesis by blast
  qed
  from create update run show ?thesis by blast
qed

subsection \<open>Timestamps of the reading-list repository\<close>

lemma ReadingListRepository_Create_ok:
  "ReadingListRepository_Create now b r = (None, b', r') \<Longrightarrow>
     DAList.lookup (lists r) (ReadingList.ID b) = None
     \<and> b' = b\<lparr>ReadingList.CreatedAt := now, ReadingList.UpdatedAt := now\<rparr>
     \<and> r' = r\<lparr>lists := DAList.update (ReadingList.ID b) b' (lists r)\<rparr>"
  by (auto simp add: ReadingListRepository_Create_def Let_def split: option.splits)

lemma ReadingListRepository_Update_ok:
  "ReadingListRepository_Update now b r = (None, b', r') \<Longrightarrow>
     (\<exists>old. DAList.lookup (lists r) (ReadingList.ID b) = Some old
        \<and> b' = b\<lparr>ReadingList.CreatedAt := ReadingList.CreatedAt old, ReadingList.UpdatedAt := now\<rparr>)
     \<and> r' = r\<lparr>lists := DAList.update (ReadingList.ID b) b' (lists r)\<rparr>"
  by (auto simp add: ReadingListRepository_Update_def Let_def split: option.splits)

lemma ReadingListRepository_Create_lookup:
  "DAList.lookup (lists (snd (snd (ReadingListRepository_Create now b r)))) k =
     (if ReadingList.ID b = k \<and> DAList.lookup (lists r) k = None
      then Some (b\<lparr>ReadingList.CreatedAt := now, ReadingList.UpdatedAt := now\<rparr>)
      else DAList.lookup (lists r) k)"
  by (auto simp add: ReadingListRepository_Create_def Let_def DAList.lookup_update split: option.splits)

lemma ReadingListRepository_Update_lookup:
  "DAList.lookup (lists (snd (snd (ReadingListRepository_Update now b r)))) k =
     (if ReadingList.ID b = k
      then map_option (\<lambda>old. b\<lparr>ReadingList.CreatedAt := ReadingList.CreatedAt old, ReadingList.UpdatedAt := now\<rparr>)
             (DAList.lookup (lists r) k)
      else DAList.lookup (lists r) k)"
  by (auto simp add: ReadingListRepository_Update_def Let_def DAList.lookup_update split: option.splits)

lemma ReadingListRepository_Delete_lookup:
  "DAList.lookup (lists (snd (ReadingListRepository_Delete k' r))) k =
     (if k' = k then None else DAList.lookup (lists r) k)"
  by (auto simp add: ReadingListRepository_Delete_def split: option.splits)

lemmas ReadingListRepository_lookups =
  ReadingListRepository_Create_lookup ReadingListRepository_Update_lookup ReadingListRepository_Delete_lookup

lemma ReadingListRepository_stamped_iff:
  "ReadingListRepository_stamped r t \<longleftrightarrow>
     (\<forall>k e. DAList.lookup (lists r) k = Some e \<longrightarrow>
        ReadingList.CreatedAt e \<le> ReadingList.UpdatedAt e \<and> ReadingList.UpdatedAt e \<le> t)"
  by (simp add: ReadingListRepository_stamped_def all_entries_iff_lookup)

lemma ReadingListRepository_stamped_step:
  assumes "ReadingListRepository_stamped r t" and "sorted (t # call_readings c)"
  shows "ReadingListRepository_stamped (ReadingListRepository_step r c) (last (t # call_readings c))"
  using assms
  by (cases c)
     (auto simp add: ReadingListRepository_stamped_iff ReadingListRepository_lookups split: if_splits,
      (meson order_trans)+)

lemma ReadingListRepository_stamped_run:
  "ReadingListRepository_stamped r t \<Longrightarrow> sorted (t # clock_readings calls) \<Longrightarrow>
     ReadingListRepository_stamped (ReadingListRepository_run r calls) (last (t # clock_readings calls))"
proof (induction calls arbitrary: r t)
  case Nil
  then show ?case by (simp add: ReadingListRepository_run_def clock_readings_Nil)
next
  case (Cons c calls)
  let ?t = "last (t # call_readings c)"
  from Cons.prems(2) have s1: "sorted (t # call_readings c)"
    and s2: "sorted (?t # clock_readings calls)"
    by (cases c; simp add: clock_readings_Cons)+
  from ReadingListRepository_stamped_step [OF Cons.prems(1) s1]
  have "ReadingListRepository_stamped (ReadingListRepository_step r c) ?t" .
  from Cons.IH [OF this s2]
  have "ReadingListRepository_stamped (ReadingListRepository_run (ReadingListRepository_step r c) calls)
          (last (?t # clock_readings calls))" .
  moreover have "last (?t # clock_readings calls) = last (t # clock_readings (c # calls))"
    by (cases c; simp add: clock_readings_Cons)
  ultimately show ?case by (simp add: ReadingListRepository_run_def)
qed

lemma ReadingListRepository_run_written:
  "sorted (t # clock_readings calls) \<Longrightarrow>
   DAList.lookup (lists (ReadingListRepository_run r calls)) k = Some e2 \<Longrightarrow>
     DAList.lookup (lists r) k = Some e2 \<or> t \<le> ReadingList.UpdatedAt e2"
proof (induction calls arbitrary: r t)
  case Nil
  then show ?case by (simp add: ReadingListRepository_run_def)
next
  case (Cons c calls)
  let ?t = "last (t # call_readings c)"
  from Cons.prems(1) have s1: "sorted (t # call_readings c)"
    and s2: "sorted (?t # clock_readings calls)"
    by (cases c; simp add: clock_readings_Cons)+
  from s1 have le: "t \<le> ?t" by (cases c) auto
  from Cons.prems(2)
  have "DAList.lookup (lists (ReadingListRepository_run (ReadingListRepository_step r c) calls)) k = Some e2"
    by (simp add: ReadingListRepository_run_def)
  from Cons.IH [OF s2 this]
  consider "DAList.lookup (lists (ReadingListRepository_step r c)) k = Some e2" | "?t \<le> ReadingList.UpdatedAt e2"
    by blast
  then show ?case
  proof cases
    case 1
    then show ?thesis using s1
      by (cases c) (auto simp add: ReadingListRepository_lookups split: if_splits)
  next
    case 2
    with le show ?thesis by simp
  qed
qed

lemma ReadingListRepository_run_created:
  "Call_Delete k \<notin> set calls \<Longrightarrow> DAList.lookup (lists r) k = Some e1 \<Longrightarrow>
     \<exists>e2. DAList.lookup (lists (ReadingListRepository_run r calls)) k = Some e2
          \<and> ReadingList.CreatedAt e2 = ReadingList.CreatedAt e1"
proof (induction calls arbitrary: r e1)
  case Nil
  then show ?case by (simp add: ReadingListRepository_run_def)
next
  case (Cons c calls)
  from Cons.prems have "\<exists>e. DAList.lookup (lists (ReadingListRepository_step r c)) k = Some e
      \<and> ReadingList.CreatedAt e = ReadingList.CreatedAt e1"
    by (cases c) (auto simp add: ReadingListRepository_lookups)
  then obtain e where e: "DAList.lookup (lists (ReadingListRepository_step r c)) k = Some e"
    "ReadingList.CreatedAt e = ReadingList.CreatedAt e1" by blast
  from Cons.prems(1) have "Call_Delete k \<notin> set calls" by simp
  from Cons.IH [OF this e(1)] e(2) show ?case by (simp add: ReadingListRepository_run_def)
qed

lemma ReadingListRepository_run_append:
  "ReadingListRepository_run r (calls1 @ calls2) = ReadingListRepository_run (ReadingListRepository_run r calls1) calls2"
  by (simp add: ReadingListRepository_run_def)

lemma ReadingListRepository_timestamps:
  "(ReadingListRepository_Create now b r = (None, b', r') \<longrightarrow>
      DAList.lookup (lists r') (ReadingList.ID b) = Some b'
      \<and> ReadingList.CreatedAt b' = now \<and> ReadingList.UpdatedAt b' = now)
   \<and> (ReadingListRepository_Update now b r = (None, b', r') \<longrightarrow>
      (\<exists>old. DAList.lookup (lists r) (ReadingList.ID b) = Some old
         \<and> DAList.lookup (lists r') (ReadingList.ID b) = Some b'
         \<and> ReadingList.CreatedAt b' = ReadingList.CreatedAt old \<and> ReadingList.UpdatedAt b' = now))
   \<and> (sorted (clock_readings (calls1 @ calls2))
       \<and> DAList.lookup (lists (ReadingListRepository_run NewReadingListRepository calls1)) k = Some e1
       \<and> DAList.lookup (lists (ReadingListRepository_run NewReadingListRepository (calls1 @ calls2))) k = Some e2
       \<longrightarrow> ReadingList.UpdatedAt e1 \<le> ReadingList.UpdatedAt e2 \<and> ReadingList.CreatedAt e2 \<le> ReadingList.UpdatedAt e2
          \<and> (Call_Delete k \<notin> set calls2 \<longrightarrow> ReadingList.CreatedAt e2 = ReadingList.CreatedAt e1))"
proof -
  have create: "ReadingListRepository_Create now b r = (None, b', r') \<longrightarrow>
      DAList.lookup (lists r') (ReadingList.ID b) = Some b'
      \<and> ReadingList.CreatedAt b' = now \<and> ReadingList.UpdatedAt b' = now"
    by (auto dest!: ReadingListRepository_Create_ok)
  have update: "ReadingListRepository_Update now b r = (None, b', r') \<longrightarrow>
      (\<exists>old. DAList.lookup (lists r) (ReadingList.ID b) = Some old
         \<and> DAList.lookup (lists r') (ReadingList.ID b) = Some b'
         \<and> ReadingList.CreatedAt b' = ReadingList.CreatedAt old \<and> ReadingList.UpdatedAt b' = now)"
    by (auto dest!: ReadingListRepository_Update_ok)
  have run: "ReadingList.UpdatedAt e1 \<le> ReadingList.UpdatedAt e2 \<and> ReadingList.CreatedAt e2 \<le> ReadingList.UpdatedAt e2
          \<and> (Call_Delete k \<notin> set calls2 \<longrightarrow> ReadingList.CreatedAt e2 = ReadingList.CreatedAt e1)"
    if srt: "sorted (clock_readings (calls1 @ calls2))"
      and l1: "DAList.lookup (lists (ReadingListRepository_run NewReadingListRepository calls1)) k = Some e1"
      and l2: "DAList.lookup (lists (ReadingListRepository_run NewReadingListRepository (calls1 @ calls2))) k = Some e2"
  proof -
    let ?r1 = "ReadingListRepository_run NewReadingListRepository calls1"
    from srt obtain t where t: "sorted (t # clock_readings calls1)"
      "sorted (last (t # clock_readings calls1) # clock_readings calls2)"
      using sorted_readings_split [of "clock_readings calls1" "clock_readings calls2"]
      by (auto simp add: clock_readings_append)
    let ?t1 = "last (t # clock_readings calls1)"
    have new: "ReadingListRepository_stamped NewReadingListRepository t"
      by (simp add: ReadingListRepository_stamped_iff NewReadingListRepository_def)
    from ReadingListRepository_stamped_run [OF new t(1)] have st1: "ReadingListRepository_stamped ?r1 ?t1" .
    from ReadingListRepository_stamped_run [OF st1 t(2)] l2
    have c2: "ReadingList.CreatedAt e2 \<le> ReadingList.UpdatedAt e2"
      by (simp add: ReadingListRepository_stamped_iff ReadingListRepository_run_append)
    from st1 l1 have u1: "ReadingList.UpdatedAt e1 \<le> ?t1" by (simp add: ReadingListRepository_stamped_iff)
    from l2 have l2': "DAList.lookup (lists (ReadingListRepository_run ?r1 calls2)) k = Some e2"
      by (simp add: ReadingListRepository_run_append)
    from ReadingListRepository_run_written [OF t(2) l2'] l1 u1
    have mono: "ReadingList.UpdatedAt e1 \<le> ReadingList.UpdatedAt e2" by auto
    have keep: "ReadingList.CreatedAt e2 = ReadingList.CreatedAt e1" if "Call_Delete k \<notin> set calls2"
      using ReadingListRepository_run_created [OF that l1] l2' by auto
    from mono c2 keep show ?thesis by blast
  qed
  from create update run show ?thesis by blast
qed

text \<open>
  C3. In each of the three repositories: after a successful \<open>Create\<close> the stored entity
  has \<open>CreatedAt\<close> and \<open>UpdatedAt\<close> both equal to the clock reading of the call; a
  successful \<open>Update\<close> stores the entity with the \<open>CreatedAt\<close> that was stored before
  and with \<open>UpdatedAt\<close> equal to the clock reading of the call. In every run from the
  empty repository whose clock readings never decrease, an entity found under a key at
  some point and again later has an \<open>UpdatedAt\<close> that has not decreased, its
  \<open>CreatedAt\<close> is at most its \<open>UpdatedAt\<close>, and its \<open>CreatedAt\<close> is the same as long
  as the key was not deleted in between.
\<close>

theorem C3_timestamps:
  "((BookRepository_Create nowB xB rB = (None, xB', rB') \<longrightarrow>
      DAList.lookup (books rB') (Book.ID xB) = Some xB'
      \<and> Book.CreatedAt xB' = nowB \<and> Book.UpdatedAt xB' = nowB)
   \<and> (BookRepository_Update nowB xB rB = (None, xB', rB') \<longrightarrow>
      (\<exists>old. DAList.lookup (books rB) (Book.ID xB) = Some old
         \<and> DAList.lookup (books rB') (Book.ID xB) = Some xB'
         \<and> Book.CreatedAt xB' = Book.CreatedAt old \<and> Book.UpdatedAt xB' = nowB))
   \<and> (sorted (clock_readings (callsB @ laterB))
       \<and> DAList.lookup (books (BookRepository_run NewBookRepository callsB)) kB = Some eB
       \<and> DAList.lookup (books (BookRepository_run NewBookRepository (callsB @ laterB))) kB = Some eB'
       \<longrightarrow> Book.UpdatedAt eB \<le> Book.UpdatedAt eB'
          \<and> Book.CreatedAt eB' \<le> Book.UpdatedAt eB'
          \<and> (Call_Delete kB \<notin> set laterB \<longrightarrow> Book.CreatedAt eB' = Book.CreatedAt eB)))
   \<and> ((AuthorRepository_Create nowA xA rA = (None, xA', rA') \<longrightarrow>
      DAList.lookup (authors rA') (Author.ID xA) = Some xA'
      \<and> Author.CreatedAt xA' = nowA \<and> Author.UpdatedAt xA' = nowA)
   \<and> (AuthorRepository_Update nowA xA rA = (None, xA', rA') \<longrightarrow>
      (\<exists>old. DAList.lookup (authors rA) (Author.ID xA) = Some old
         \<and> DAList.lookup (authors rA') (Author.ID xA) = Some xA'
         \<and> Author.CreatedAt xA' = Author.CreatedAt old \<and> Author.UpdatedAt xA' = nowA))
   \<and> (sorted (clock_readings (callsA @ laterA))
       \<and> DAList.lookup (authors (AuthorRepository_run NewAuthorRepository callsA)) kA = Some eA
       \<and> DAList.lookup (authors (AuthorRepository_run NewAuthorRepository (callsA @ laterA))) kA = Some eA'
       \<longrightarrow> Author.UpdatedAt eA \<le> Author.UpdatedAt eA'
          \<and> Author.CreatedAt eA' \<le> Author.UpdatedAt eA'
          \<and> (Call_Delete kA \<notin> set laterA \<longrightarrow> Author.CreatedAt eA' = Author.CreatedAt eA)))
   \<and> ((ReadingListRepository_Create nowL xL rL = (None, xL', rL') \<longrightarrow>
      DAList.lookup (lists rL') (ReadingList.ID xL) = Some xL'
      \<and> ReadingList.CreatedAt xL' = nowL \<and> ReadingList.UpdatedAt xL' = nowL)
   \<and> (ReadingListRepository_Update nowL xL rL = (None, xL', rL') \<longrightarrow>
      (\<exists>old. DAList.lookup (lists rL) (ReadingList.ID xL) = Some old
         \<and> DAList.lookup (lists rL') (ReadingList.ID xL) = Some xL'
         \<and> ReadingList.CreatedAt xL' = ReadingList.CreatedAt old \<and> ReadingList.UpdatedAt xL' = nowL))
   \<and> (sorted (clock_readings (callsL @ laterL))
       \<and> DAList.lookup (lists (ReadingListRepository_run NewReadingListRepository callsL)) kL = Some eL
       \<and> DAList.lookup (lists (ReadingListRepository_run NewReadingListRepository (callsL @ laterL))) kL = Some eL'
       \<longrightarrow> ReadingList.UpdatedAt eL \<le> ReadingList.UpdatedAt eL'
          \<and> ReadingList.CreatedAt eL' \<le> ReadingList.UpdatedAt eL'
          \<and> (Call_Delete kL \<notin> set laterL \<longrightarrow> ReadingList.CreatedAt eL' = ReadingList.CreatedAt eL)))"
  by (rule conjI, rule BookRepository_timestamps, rule conjI,
      rule AuthorRepository_timestamps, rule ReadingListRepository_timestamps)

theorem C3_timestamps_witness:
  "BookRepository_Create 1 book0 NewBookRepository
     = (None, book0\<lparr>Book.CreatedAt := 1, Book.UpdatedAt := 1\<rparr>,
        BookRepository_run NewBookRepository bookcalls0)
   \<and> BookRepository_Update 5 (book0\<lparr>Title := ''T2''\<rparr>) (BookRepository_run NewBookRepository bookcalls0)
     = (None, book0\<lparr>Title := ''T2'', Book.CreatedAt := 1, Book.UpdatedAt := 5\<rparr>,
        BookRepository_run NewBookRepository (bookcalls0 @ bookcalls1))
   \<and> sorted (clock_readings (bookcalls0 @ bookcalls1))
   \<and> DAList.lookup (books (BookRepository_run NewBookRepository bookcalls0)) ''b1''
       = Some (book0\<lparr>Book.CreatedAt := 1, Book.UpdatedAt := 1\<rparr>)
   \<and> DAList.lookup (books (BookRepository_run NewBookRepository (bookcalls0 @ bookcalls1))) ''b1''
       = Some (book0\<lparr>Title := ''T2'', Book.CreatedAt := 1, Book.UpdatedAt := 5\<rparr>)
   \<and> Call_Delete ''b1'' \<notin> set bookcalls1
   \<and> sorted (clock_readings (authorcalls0 @ authorcalls1))
   \<and> DAList.lookup (authors (AuthorRepository_run NewAuthorRepository authorcalls0)) ''a1''
       = Some (author0\<lparr>Author.CreatedAt := 1, Author.UpdatedAt := 1\<rparr>)
   \<and> DAList.lookup (authors (AuthorRepository_run NewAuthorRepository (authorcalls0 @ authorcalls1))) ''a1''
       = Some (author0\<lparr>Bio := ''A prolific writer.'', Author.CreatedAt := 1, Author.UpdatedAt := 5\<rparr>)
   \<and> Call_Delete ''a1'' \<notin> set authorcalls1
   \<and> sorted (clock_readings (listcalls0 @ listcalls1))
   \<and> DAList.lookup (lists (ReadingListRepository_run NewReadingListRepository listcalls0)) ''list-1''
       = Some (list0\<lparr>ReadingList.CreatedAt := 1, ReadingList.UpdatedAt := 1\<rparr>)
   \<and> DAList.lookup (lists (ReadingListRepository_run NewReadingListRepository (listcalls0 @ listcalls1))) ''list-1''
       = Some (list0\<lparr>Description := ''for the summer'', ReadingList.CreatedAt := 1, ReadingList.UpdatedAt := 5\<rparr>)
   \<and> Call_Delete ''list-1'' \<notin> set listcalls1"
proof -
  have b1: "BookRepository_Create 1 book0 NewBookRepository
     = (None, book0\<lparr>Book.CreatedAt := 1, Book.UpdatedAt := 1\<rparr>,
        BookRepository_run NewBookRepository bookcalls0)"
    by code_simp
  have b2: "BookRepository_Update 5 (book0\<lparr>Title := ''T2''\<rparr>) (BookRepository_run NewBookRepository bookcalls0)
     = (None, book0\<lparr>Title := ''T2'', Book.CreatedAt := 1, Book.UpdatedAt := 5\<rparr>,
        BookRepository_run NewBookRepository (bookcalls0 @ bookcalls1))"
    by code_simp
  have b3: "sorted (clock_readings (bookcalls0 @ bookcalls1))"
    by code_simp
  have b4: "DAList.lookup (books (BookRepository_run NewBookRepository bookcalls0)) ''b1''
       = Some (book0\<lparr>Book.CreatedAt := 1, Book.UpdatedAt := 1\<rparr>)"
    by code_simp
  have b5: "DAList.lookup (books (BookRepository_run NewBookRepository (bookcalls0 @ bookcalls1))) ''b1''
       = Some (book0\<lparr>Title := ''T2'', Book.CreatedAt := 1, Book.UpdatedAt := 5\<rparr>)"
    by code_simp
  have b6: "Call_Delete ''b1'' \<notin> set bookcalls1"
    by (simp add: bookcalls1_def)
  have a3: "sorted (clock_readings (authorcalls0 @ authorcalls1))"
    by code_simp
  have a4: "DAList.lookup (authors (AuthorRepository_run NewAuthorRepository authorcalls0)) ''a1''
       = Some (author0\<lparr>Author.CreatedAt := 1, Author.UpdatedAt := 1\<rparr>)"
    by code_simp
  have a5: "DAList.lookup (authors (AuthorRepository_run NewAuthorRepository (authorcalls0 @ authorcalls1))) ''a1''
       = Some (author0\<lparr>Bio := ''A prolific writer.'', Author.CreatedAt := 1, Author.UpdatedAt := 5\<rparr>)"
    by code_simp
  have a6: "Call_Delete ''a1'' \<notin> set authorcalls1"
    by (simp add: authorcalls1_def)
  have l3: "sorted (clock_readings (listcalls0 @ listcalls1))"
    by code_simp
  have l4: "DAList.lookup (lists (ReadingListRepository_run NewReadingListRepository listcalls0)) ''list-1''
       = Some (list0\<lparr>ReadingList.CreatedAt := 1, ReadingList.UpdatedAt := 1\<rparr>)"
    by code_simp
  have l5: "DAList.lookup (lists (ReadingListRepository_run NewReadingListRepository (listcalls0 @ listcalls1))) ''list-1''
       = Some (list0\<lparr>Description := ''for the summer'', ReadingList.CreatedAt := 1, ReadingList.UpdatedAt := 5\<rparr>)"
    by code_simp
  have l6: "Call_Delete ''list-1'' \<notin> set listcalls1"
    by (simp add: listcalls1_def)
  note I = C3_timestamps [where nowB = 1 and xB = book0 and rB = NewBookRepository
      and xB' = "book0\<lparr>Book.CreatedAt := 1, Book.UpdatedAt := 1\<rparr>"
      and rB' = "BookRepository_run NewBookRepository bookcalls0"
      and callsB = bookcalls0 and laterB = bookcalls1 and kB = "''b1''"
      and eB = "book0\<lparr>Book.CreatedAt := 1, Book.UpdatedAt := 1\<rparr>"
      and eB' = "book0\<lparr>Title := ''T2'', Book.CreatedAt := 1, Book.UpdatedAt := 5\<rparr>"
      and callsA = authorcalls0 and laterA = authorcalls1 and kA = "''a1''"
      and eA = "author0\<lparr>Author.CreatedAt := 1, Author.UpdatedAt := 1\<rparr>"
      and eA' = "author0\<lparr>Bio := ''A prolific writer.'', Author.CreatedAt := 1, Author.UpdatedAt := 5\<rparr>"
      and callsL = listcalls0 and laterL = listcalls1 and kL = "''list-1''"
      and eL = "list0\<lparr>ReadingList.CreatedAt := 1, ReadingList.UpdatedAt := 1\<rparr>"
      and eL' = "list0\<lparr>Description := ''for the summer'', ReadingList.CreatedAt := 1, ReadingList.UpdatedAt := 5\<rparr>"]
  show ?thesis
    using I b1 b2 b3 b4 b5 b6 a3 a4 a5 a6 l3 l4 l5 l6 by blast
qed

subsection \<open>ISBN uniqueness in the book service\<close>

lemma CreateBook_loop_iff:
  "CreateBook_loop existingBooks book \<longleftrightarrow> (\<exists>e \<in> set existingBooks. ISBN e = ISBN book)"
  by (induction existingBooks) auto





lemma BookService_CreateBook_eq:
  "BookService_CreateBook now b s =
     (case Book_Validate b of
        Some err \<Rightarrow> (Some (fmt_Errorf service_ErrInvalidBook err), b, s)
      | None \<Rightarrow>
          if CreateBook_loop (BookService_ListBooks s) b
          then (Some service_ErrDuplicateISBN, b, s)
          else (case DAList.lookup (books (BookService.repo s)) (Book.ID b) of
                  Some existing \<Rightarrow> (Some repository_ErrBookExists, b, s)
                | None \<Rightarrow>
                    (None, b\<lparr>Book.CreatedAt := now, Book.UpdatedAt := now\<rparr>,
                     s\<lparr>BookService.repo := (BookService.repo s)
                         \<lparr>books := DAList.update (Book.ID b)
                            (b\<lparr>Book.CreatedAt := now, Book.UpdatedAt := now\<rparr>)
                            (books (BookService.repo s))\<rparr>\<rparr>)))"
proof (cases "Book_Validate b")
  case (Some err)
  then show ?thesis by (simp add: BookService_CreateBook_def)
next
  case None
  note valid = this
  show ?thesis
  proof (cases "CreateBook_loop (BookService_ListBooks s) b")
    case True
    with valid show ?thesis
      by (simp add: BookService_CreateBook_def BookService_ListBooks_def)
  next
    case False
    note fresh = this
    show ?thesis
    proof (cases "DAList.lookup (books (BookService.repo s)) (Book.ID b)")
      case None
      with valid fresh show ?thesis
        by (simp add: BookService_CreateBook_def BookService_ListBooks_def
            BookRepository_Create_def Let_def)
    next
      case (Some existing)
      with valid fresh show ?thesis
        by (simp add: BookService_CreateBook_def BookService_ListBooks_def
            BookRepository_Create_def)
    qed
  qed
qed



lemma BookService_GetBook_eq:
  "BookService_GetBook s k =
     (case DAList.lookup (books (BookService.repo s)) k of
        None \<Rightarrow> Inl service_ErrBookNotFound
      | Some book \<Rightarrow> Inr book)"
  by (simp add: BookService_GetBook_def BookRepository_Get_def split: option.splits)





lemma BookService_CreateBook_None:
  assumes "fst (BookService_CreateBook now b s) = None"
  shows "Book_Validate b = None \<and> \<not> CreateBook_loop (BookService_ListBooks s) b
     \<and> DAList.lookup (books (BookService.repo s)) (Book.ID b) = None
     \<and> BookService_CreateBook now b s =
         (None, b\<lparr>Book.CreatedAt := now, Book.UpdatedAt := now\<rparr>,
          s\<lparr>BookService.repo := (BookService.repo s)
              \<lparr>books := DAList.update (Book.ID b)
                 (b\<lparr>Book.CreatedAt := now, Book.UpdatedAt := now\<rparr>)
                 (books (BookService.repo s))\<rparr>\<rparr>)"
proof -
  have v: "Book_Validate b = None"
    using assms by (cases "Book_Validate b") (simp_all add: BookService_CreateBook_eq)
  have d: "\<not> CreateBook_loop (BookService_ListBooks s) b"
    using assms v by (cases "CreateBook_loop (BookService_ListBooks s) b")
      (simp_all add: BookService_CreateBook_eq)
  have l: "DAList.lookup (books (BookService.repo s)) (Book.ID b) = None"
    using assms v d by (cases "DAList.lookup (books (BookService.repo s)) (Book.ID b)")
      (simp_all add: BookService_CreateBook_eq)
  from v d l show ?thesis by (simp add: BookService_CreateBook_eq)
qed





subsection \<open>Creating and updating books\<close>

lemma BookService_CreateBook_accepts:
  assumes "Book_Validate b = None"
    and "\<forall>e \<in> set (BookService_ListBooks s). ISBN e \<noteq> ISBN b"
    and "BookService_GetBook s (Book.ID b) = Inl service_ErrBookNotFound"
  shows "fst (BookService_CreateBook now b s) = None"
proof -
  from assms(2) have d: "\<not> CreateBook_loop (BookService_ListBooks s) b"
    unfolding CreateBook_loop_iff by blast
  from assms(3) have l: "DAList.lookup (books (BookService.repo s)) (Book.ID b) = None"
    by (cases "DAList.lookup (books (BookService.repo s)) (Book.ID b)")
       (simp_all add: BookService_GetBook_eq)
  from assms(1) d l show ?thesis by (simp add: BookService_CreateBook_eq)
qed




lemma BookRepository_inv_iff:
  "BookRepository_inv r \<longleftrightarrow> (\<forall>k e. DAList.lookup (books r) k = Some e \<longrightarrow> Book.ID e = k)"
  by (simp add: BookRepository_inv_def all_entries_iff_lookup)

lemma BookRepository_inv_New: "BookRepository_inv NewBookRepository"
  by (simp add: BookRepository_inv_def NewBookRepository_def empty.rep_eq)

lemma BookRepository_inv_Create:
  "BookRepository_inv r \<Longrightarrow> BookRepository_inv (snd (snd (BookRepository_Create now b r)))"
  by (auto simp add: BookRepository_inv_iff BookRepository_Create_lookup split: if_splits)

lemma BookRepository_inv_Update:
  "BookRepository_inv r \<Longrightarrow> BookRepository_inv (snd (snd (BookRepository_Update now b r)))"
  by (auto simp add: BookRepository_inv_iff BookRepository_Update_lookup split: if_splits)

lemma BookRepository_inv_Delete:
  "BookRepository_inv r \<Longrightarrow> BookRepository_inv (snd (BookRepository_Delete k r))"
  by (auto simp add: BookRepository_inv_iff BookRepository_Delete_lookup split: if_splits)





text \<open>
  C7. A valid book whose ISBN no stored book has and whose id is not stored is accepted
  by \<open>CreateBook\<close>; and after every successful \<open>CreateBook\<close>, \<open>GetBook\<close> with the id of
  the book succeeds and returns the book with the fields the caller gave, and with
  \<open>CreatedAt\<close> and \<open>UpdatedAt\<close> equal to the clock reading of the call, which are not
  the zero time when that reading is not.
\<close>

theorem C7_create_get_roundtrip:
  "(Book_Validate b = None
      \<and> (\<forall>e \<in> set (BookService_ListBooks s). ISBN e \<noteq> ISBN b)
      \<and> BookService_GetBook s (Book.ID b) = Inl service_ErrBookNotFound
      \<longrightarrow> fst (BookService_CreateBook now b s) = None)
   \<and> (BookService_CreateBook now b s = (None, b', s') \<longrightarrow>
        Book_Validate b = None
        \<and> (\<exists>g. BookService_GetBook s' (Book.ID b) = Inr g
              \<and> Book.ID g = Book.ID b \<and> Title g = Title b \<and> ISBN g = ISBN b
              \<and> AuthorID g = AuthorID b \<and> Pages g = Pages b \<and> Genre g = Genre b
              \<and> PublishedAt g = PublishedAt b
              \<and> Book.CreatedAt g = now \<and> Book.UpdatedAt g = now
              \<and> (\<not> IsZero now \<longrightarrow> \<not> IsZero (Book.CreatedAt g) \<and> \<not> IsZero (Book.UpdatedAt g))))"
proof -
  have accept: "Book_Validate b = None
      \<and> (\<forall>e \<in> set (BookService_ListBooks s). ISBN e \<noteq> ISBN b)
      \<and> BookService_GetBook s (Book.ID b) = Inl service_ErrBookNotFound
      \<longrightarrow> fst (BookService_CreateBook now b s) = None"
    using BookService_CreateBook_accepts [of b s now] by blast
  have round: "Book_Validate b = None
        \<and> (\<exists>g. BookService_GetBook s' (Book.ID b) = Inr g
              \<and> Book.ID g = Book.ID b \<and> Title g = Title b \<and> ISBN g = ISBN b
              \<and> AuthorID g = AuthorID b \<and> Pages g = Pages b \<and> Genre g = Genre b
              \<and> PublishedAt g = PublishedAt b
              \<and> Book.CreatedAt g = now \<and> Book.UpdatedAt g = now
              \<and> (\<not> IsZero now \<longrightarrow> \<not> IsZero (Book.CreatedAt g) \<and> \<not> IsZero (Book.UpdatedAt g)))"
    if ok: "BookService_CreateBook now b s = (None, b', s')"
  proof -
    from ok have "fst (BookService_CreateBook now b s) = None" by simp
    from BookService_CreateBook_None [OF this] ok
    have v: "Book_Validate b = None"
      and s': "s' = s\<lparr>BookService.repo := (BookService.repo s)
              \<lparr>books := DAList.update (Book.ID b)
                 (b\<lparr>Book.CreatedAt := now, Book.UpdatedAt := now\<rparr>)
                 (books (BookService.repo s))\<rparr>\<rparr>"
      by simp_all
    have g: "BookService_GetBook s' (Book.ID b)
        = Inr (b\<lparr>Book.CreatedAt := now, Book.UpdatedAt := now\<rparr>)"
      unfolding s' by (simp add: BookService_GetBook_eq)
    from v g show ?thesis by simp
  qed
  from accept round show ?thesis by blast
qed

theorem C7_create_get_roundtrip_witness:
  "Book_Validate book0 = None
   \<and> BookService_GetBook (NewBookService NewBookRepository) ''b1'' = Inl service_ErrBookNotFound
   \<and> BookService_CreateBook 1 book0 (NewBookService NewBookRepository)
       = (None, book0\<lparr>Book.CreatedAt := 1, Book.UpdatedAt := 1\<rparr>, booksvc1)
   \<and> \<not> IsZero 1
   \<and> (\<exists>g. BookService_GetBook booksvc1 ''b1'' = Inr g \<and> Title g = ''T'' \<and> ISBN g = ''123''
          \<and> \<not> IsZero (Book.CreatedAt g) \<and> \<not> IsZero (Book.UpdatedAt g))"
proof -
  have v: "Book_Validate book0 = None" by code_simp
  have g: "BookService_GetBook (NewBookService NewBookRepository) ''b1'' = Inl service_ErrBookNotFound"
    by code_simp
  have c: "BookService_CreateBook 1 book0 (NewBookService NewBookRepository)
       = (None, book0\<lparr>Book.CreatedAt := 1, Book.UpdatedAt := 1\<rparr>, booksvc1)"
    by code_simp
  have z: "\<not> IsZero 1" by (simp add: IsZero_def)
  have f: "Book.ID book0 = ''b1''" "Title book0 = ''T''" "ISBN book0 = ''123''"
    by (simp_all add: book0_def)
  from C7_create_get_roundtrip [of book0 "NewBookService NewBookRepository" 1
      "book0\<lparr>Book.CreatedAt := 1, Book.UpdatedAt := 1\<rparr>" booksvc1] c z f
  have "\<exists>g. BookService_GetBook booksvc1 ''b1'' = Inr g \<and> Title g = ''T'' \<and> ISBN g = ''123''
          \<and> \<not> IsZero (Book.CreatedAt g) \<and> \<not> IsZero (Book.UpdatedAt g)"
    by auto
  with v g c z show ?thesis by blast
qed

subsection \<open>A create with an identifier that is already stored\<close>

lemma respondError_fresh:
  "status w = None \<Longrightarrow>
     status (respondError w code msg) = Some code
     \<and> body (respondError w code msg) = body w @ [JSON_error msg]
     \<and> header (respondError w code msg) = (header w)(''Content-Type'' \<mapsto> ''application/json'')"
  by (simp add: respondError_def respondJSON_def Header_Set_def WriteHeader_def Write_def Let_def)

lemma BookService_CreateBook_exists:
  assumes valid: "Book_Validate book = None"
    and fresh: "\<forall>e \<in> set (BookService_ListBooks s). ISBN e \<noteq> ISBN book"
    and stored: "BookService_GetBook s (Book.ID book) = Inr old"
  shows "BookService_CreateBook now book s = (Some repository_ErrBookExists, book, s)"
proof -
  from fresh have d: "\<not> CreateBook_loop (BookService_ListBooks s) book"
    unfolding CreateBook_loop_iff by blast
  from stored have l: "DAList.lookup (books (BookService.repo s)) (Book.ID book) = Some old"
    by (cases "DAList.lookup (books (BookService.repo s)) (Book.ID book)")
       (simp_all add: BookService_GetBook_eq)
  from valid d l show ?thesis by (simp add: BookService_CreateBook_eq)
qed

text \<open>
  C8. A POST to \<^verbatim>\<open>/api/books\<close> whose body decodes to a valid book with an ISBN that no
  stored book has and an id that is already stored: the service returns the
  repository's \<open>ErrBookExists\<close> as it is; that error is none of \<open>ErrInvalidBook\<close>,
  \<open>ErrDuplicateISBN\<close>, \<open>ErrBookNotFound\<close>; and the handler answers 500 with the JSON
  error body \<^verbatim>\<open>Failed to create book\<close>, the store unchanged.
\<close>

theorem C8_existing_id_gives_500:
  assumes "Method r = ''POST''"
    and "Decode (Body r) = Some book"
    and "Book_Validate book = None"
    and "\<forall>e \<in> set (BookService_ListBooks (service h)). ISBN e \<noteq> ISBN book"
    and "BookService_GetBook (service h) (Book.ID book) = Inr old"
    and "status w = None"
  shows "fst (BookService_CreateBook now book (service h)) = Some repository_ErrBookExists
    \<and> \<not> errors_Is repository_ErrBookExists service_ErrInvalidBook
    \<and> \<not> errors_Is repository_ErrBookExists service_ErrDuplicateISBN
    \<and> \<not> errors_Is repository_ErrBookExists service_ErrBookNotFound
    \<and> BookHandler_handleBooks Decode now w r h
        = (respondError w StatusInternalServerError ''Failed to create book'', h)
    \<and> status (fst (BookHandler_handleBooks Decode now w r h)) = Some 500
    \<and> body (fst (BookHandler_handleBooks Decode now w r h))
        = body w @ [JSON_error ''Failed to create book'']
    \<and> header (fst (BookHandler_handleBooks Decode now w r h))
        = (header w)(''Content-Type'' \<mapsto> ''application/json'')"
proof -
  note c = BookService_CreateBook_exists [OF assms(3,4,5), of now]
  have h: "BookHandler_handleBooks Decode now w r h
        = (respondError w StatusInternalServerError ''Failed to create book'', h)"
    using assms(1,2) c
    by (simp add: BookHandler_handleBooks_def BookHandler_createBook_def)
  from c h respondError_fresh [OF assms(6), of 500 "''Failed to create book''"]
  show ?thesis by simp
qed

theorem C8_existing_id_gives_500_witness:
  "Method post0 = ''POST''
   \<and> decode0 (Body post0) = Some (book0\<lparr>ISBN := ''456''\<rparr>)
   \<and> Book_Validate (book0\<lparr>ISBN := ''456''\<rparr>) = None
   \<and> map ISBN (BookService_ListBooks (service bookhandler1)) = [''123'']
   \<and> BookService_GetBook (service bookhandler1) ''b1''
       = Inr (book0\<lparr>Book.CreatedAt := 1, Book.UpdatedAt := 1\<rparr>)
   \<and> status writer0 = None
   \<and> status (fst (BookHandler_handleBooks decode0 2 writer0 post0 bookhandler1)) = Some 500
   \<and> body (fst (BookHandler_handleBooks decode0 2 writer0 post0 bookhandler1))
       = [JSON_error ''Failed to create book'']
   \<and> snd (BookHandler_handleBooks decode0 2 writer0 post0 bookhandler1) = bookhandler1"
proof -
  have m: "Method post0 = ''POST''" by (simp add: post0_def)
  have d: "decode0 (Body post0) = Some (book0\<lparr>ISBN := ''456''\<rparr>)"
    by (simp add: post0_def decode0_def)
  have v: "Book_Validate (book0\<lparr>ISBN := ''456''\<rparr>) = None" by code_simp
  have l: "map ISBN (BookService_ListBooks (service bookhandler1)) = [''123'']" by code_simp
  then have f: "\<forall>e \<in> set (BookService_ListBooks (service bookhandler1)).
      ISBN e \<noteq> ISBN (book0\<lparr>ISBN := ''456''\<rparr>)"
    by (cases "BookService_ListBooks (service bookhandler1)") auto
  have g: "BookService_GetBook (service bookhandler1) (Book.ID (book0\<lparr>ISBN := ''456''\<rparr>))
       = Inr (book0\<lparr>Book.CreatedAt := 1, Book.UpdatedAt := 1\<rparr>)" by code_simp
  have g': "BookService_GetBook (service bookhandler1) ''b1''
       = Inr (book0\<lparr>Book.CreatedAt := 1, Book.UpdatedAt := 1\<rparr>)" by code_simp
  have s: "status writer0 = None" "body writer0 = []" by (simp_all add: writer0_def)
  note I = C8_existing_id_gives_500 [where Decode = decode0 and r = post0 and h = bookhandler1
      and book = "book0\<lparr>ISBN := ''456''\<rparr>" and w = writer0 and now = 2, OF m d v f g s(1)]
  from I have st: "status (fst (BookHandler_handleBooks decode0 2 writer0 post0 bookhandler1)) = Some 500"
    by blast
  from I have bd: "body (fst (BookHandler_handleBooks decode0 2 writer0 post0 bookhandler1))
       = body writer0 @ [JSON_error ''Failed to create book'']"
    by blast
  from I have "BookHandler_handleBooks decode0 2 writer0 post0 bookhandler1
        = (respondError writer0 StatusInternalServerError ''Failed to create book'', bookhandler1)"
    by blast
  then have sn: "snd (BookHandler_handleBooks decode0 2 writer0 post0 bookhandler1) = bookhandler1"
    by simp
  from bd s(2) have bd': "body (fst (BookHandler_handleBooks decode0 2 writer0 post0 bookhandler1))
       = [JSON_error ''Failed to create book'']"
    by simp
  from m d v l g' s(1) st bd' sn show ?thesis by blast
qed

subsection \<open>Basic Auth\<close>

lemma IndexByte_loop_eq:
  "IndexByte_loop s c i =
     (if c \<in> set s then i + int (length (takeWhile (\<lambda>x. x \<noteq> c) s)) else - 1)"
  by (induction s arbitrary: i) auto

lemma lower_Basic: "map ascii_lower ''Basic '' = ''basic ''"
  by code_simp

lemma split_at_colon:
  "take (length (takeWhile P xs)) xs = takeWhile P xs
   \<and> drop (Suc (length (takeWhile P xs))) xs = tl (dropWhile P xs)"
proof -
  have "drop (Suc (length (takeWhile P xs))) xs = tl (drop (length (takeWhile P xs)) xs)"
    by (simp add: drop_Suc tl_drop)
  then show ?thesis
    by (simp add: takeWhile_eq_take [symmetric] dropWhile_eq_drop [symmetric])
qed

lemma length_Basic: "length ''Basic '' = 6"
  by simp

lemma prefix_guard:
  "(length auth < length ''Basic ''
      \<or> \<not> strings_EqualFold (take (length ''Basic '') auth) ''Basic '')
   \<longleftrightarrow> \<not> (6 \<le> length auth \<and> map ascii_lower (take 6 auth) = ''basic '')"
  unfolding strings_EqualFold_def lower_Basic length_Basic by auto

lemma parseBasicAuth_eq:
  "parseBasicAuth DecodeString auth =
     (case credentials_spec DecodeString auth of
        None \<Rightarrow> ([], [], False)
      | Some (username, password) \<Rightarrow> (username, password, True))"
proof -
  define ok where "ok \<longleftrightarrow> 6 \<le> length auth \<and> map ascii_lower (take 6 auth) = ''basic ''"
  have guard: "(length auth < 6 \<or> \<not> strings_EqualFold (take 6 auth) ''Basic '') \<longleftrightarrow> \<not> ok"
    unfolding ok_def using prefix_guard [of auth] unfolding length_Basic .
  have code: "parseBasicAuth DecodeString auth =
     (if \<not> ok then ([], [], False)
      else (case DecodeString (drop 6 auth) of
              None \<Rightarrow> ([], [], False)
            | Some decoded \<Rightarrow>
                if strings_IndexByte decoded CHR '':'' < 0 then ([], [], False)
                else (take (nat (strings_IndexByte decoded CHR '':'')) decoded,
                      drop (nat (strings_IndexByte decoded CHR '':'' + 1)) decoded, True)))"
    by (simp only: parseBasicAuth_def Let_def length_Basic guard)
  have spec: "credentials_spec DecodeString auth =
     (if ok
      then (case DecodeString (drop 6 auth) of
              None \<Rightarrow> None
            | Some decoded \<Rightarrow>
                if CHR '':'' \<in> set decoded
                then Some (takeWhile (\<lambda>c. c \<noteq> CHR '':'') decoded,
                           tl (dropWhile (\<lambda>c. c \<noteq> CHR '':'') decoded))
                else None)
      else None)"
    by (simp only: credentials_spec_def ok_def)
  show ?thesis
  proof (cases ok)
    case False
    then show ?thesis unfolding code spec by simp
  next
    case True
    note prefix = this
    show ?thesis
    proof (cases "DecodeString (drop 6 auth)")
      case None
      with prefix show ?thesis unfolding code spec by simp
    next
      case (Some decoded)
      show ?thesis
      proof (cases "CHR '':'' \<in> set decoded")
        case False
        then have "strings_IndexByte decoded CHR '':'' < 0"
          by (simp add: strings_IndexByte_def IndexByte_loop_eq)
        with prefix Some False show ?thesis unfolding code spec by simp
      next
        case True
        let ?n = "length (takeWhile (\<lambda>c. c \<noteq> CHR '':'') decoded)"
        have idx: "strings_IndexByte decoded CHR '':'' = int ?n"
          using True by (simp add: strings_IndexByte_def IndexByte_loop_eq)
        have n1: "nat (int ?n + 1) = Suc ?n" by simp
        from prefix Some True show ?thesis
          unfolding code spec by (simp add: idx n1 split_at_colon)
      qed
    qed
  qed
qed

lemma requireAuth_fresh:
  "status w = None \<Longrightarrow>
     status (requireAuth w realm) = Some 401
     \<and> header (requireAuth w realm) ''WWW-Authenticate''
         = Some (''Basic realm=\"'' @ realm @ ''\"'')
     \<and> body (requireAuth w realm) = body w @ [Text (''Unauthorized'' @ [CHR 0x0A])]"
  by (simp add: requireAuth_def http_Error_def Header_Set_def Header_Del_def WriteHeader_def
      Write_def Let_def)

lemma BasicAuth_eq:
  "BasicAuth DecodeString store realm next w r st =
     (case credentials_spec DecodeString (Header_Get (Header r) ''Authorization'') of
        None \<Rightarrow> (requireAuth w realm, st)
      | Some (username, password) \<Rightarrow>
          (case store username password of
             (user, True) \<Rightarrow>
               next w (r\<lparr>Context := (Context r)(UserContextKey \<mapsto> user)\<rparr>) st
           | (user, False) \<Rightarrow> (requireAuth w realm, st)))"
  by (simp add: BasicAuth_def parseBasicAuth_eq context_WithValue_def Let_def
      split: option.splits prod.splits bool.splits)

text \<open>
  C9. The middleware runs the wrapped handler exactly when the
  \<^verbatim>\<open>Authorization\<close> header carries credentials (the prefix \<^verbatim>\<open>Basic \<close> in any case, then
  text that decodes to something with a colon) and the user store authenticates the user
  name and password split at the first colon; the handler then gets the request with
  the user under the user key of its context. In every other case the wrapped handler is
  not run, and the response, on a writer with nothing written, is 401 with the header
  \<^verbatim>\<open>WWW-Authenticate: Basic realm="<realm>"\<close>.
\<close>

theorem C9_BasicAuth:
  "BasicAuth DecodeString store realm next w r st =
     (case credentials_spec DecodeString (Header_Get (Header r) ''Authorization'') of
        None \<Rightarrow> (requireAuth w realm, st)
      | Some (username, password) \<Rightarrow>
          (case store username password of
             (user, True) \<Rightarrow>
               next w (r\<lparr>Context := (Context r)(UserContextKey \<mapsto> user)\<rparr>) st
           | (user, False) \<Rightarrow> (requireAuth w realm, st)))
   \<and> snd (BasicAuth DecodeString store realm recording_handler w r []) =
     (case credentials_spec DecodeString (Header_Get (Header r) ''Authorization'') of
        None \<Rightarrow> []
      | Some (username, password) \<Rightarrow>
          (case store username password of
             (user, True) \<Rightarrow> [r\<lparr>Context := (Context r)(UserContextKey \<mapsto> user)\<rparr>]
           | (user, False) \<Rightarrow> []))
   \<and> GetUser (Context (r\<lparr>Context := (Context r)(UserContextKey \<mapsto> user)\<rparr>)) = user
   \<and> (status w = None \<longrightarrow>
        status (requireAuth w realm) = Some 401
        \<and> header (requireAuth w realm) ''WWW-Authenticate''
            = Some (''Basic realm=\"'' @ realm @ ''\"''))"
proof -
  have rec: "snd (BasicAuth DecodeString store realm recording_handler w r []) =
     (case credentials_spec DecodeString (Header_Get (Header r) ''Authorization'') of
        None \<Rightarrow> []
      | Some (username, password) \<Rightarrow>
          (case store username password of
             (user, True) \<Rightarrow> [r\<lparr>Context := (Context r)(UserContextKey \<mapsto> user)\<rparr>]
           | (user, False) \<Rightarrow> []))"
    by (simp add: BasicAuth_eq recording_handler_def split: option.splits prod.splits bool.splits)
  have get: "GetUser (Context (r\<lparr>Context := (Context r)(UserContextKey \<mapsto> user)\<rparr>)) = user"
    by (simp add: GetUser_def)
  from BasicAuth_eq [of DecodeString store realm "next" w r st] rec get
    requireAuth_fresh [of w realm]
  show ?thesis by blast
qed

theorem C9_BasicAuth_witness:
  "status writer0 = None
   \<and> credentials_spec decodeString0
        (Header_Get (Header (get0 ''basic dXNlcjpwdw=='')) ''Authorization'')
       = Some (''user'', ''pw'')
   \<and> InMemoryUserStore_Authenticate userstore0 ''user'' ''pw''
       = (Some \<lparr>User.Username = ''user'', Role = ''admin''\<rparr>, True)
   \<and> map (\<lambda>r. GetUser (Context r))
        (snd (BasicAuth decodeString0 (InMemoryUserStore_Authenticate userstore0) ''api''
               recording_handler writer0 (get0 ''basic dXNlcjpwdw=='') []))
       = [Some \<lparr>User.Username = ''user'', Role = ''admin''\<rparr>]
   \<and> credentials_spec decodeString0
        (Header_Get (Header (get0 ''Bearer token123'')) ''Authorization'') = None
   \<and> BasicAuth decodeString0 (InMemoryUserStore_Authenticate userstore0) ''api''
        recording_handler writer0 (get0 ''Bearer token123'') []
       = (requireAuth writer0 ''api'', [])
   \<and> status (requireAuth writer0 ''api'') = Some 401
   \<and> header (requireAuth writer0 ''api'') ''WWW-Authenticate'' = Some ''Basic realm=\"api\"''"
proof -
  let ?store = "InMemoryUserStore_Authenticate userstore0"
  let ?user = "\<lparr>User.Username = ''user'', Role = ''admin''\<rparr>"
  have s: "status writer0 = None" by (simp add: writer0_def)
  have c: "credentials_spec decodeString0
        (Header_Get (Header (get0 ''basic dXNlcjpwdw=='')) ''Authorization'')
       = Some (''user'', ''pw'')"
    by code_simp
  have a: "?store ''user'' ''pw'' = (Some ?user, True)"
    by code_simp
  have n: "credentials_spec decodeString0
        (Header_Get (Header (get0 ''Bearer token123'')) ''Authorization'') = None"
    by code_simp
  note I1 = C9_BasicAuth [of decodeString0 ?store "''api''" recording_handler writer0
      "get0 ''basic dXNlcjpwdw==''" "[]" "Some ?user"]
  note I2 = C9_BasicAuth [of decodeString0 ?store "''api''" recording_handler writer0
      "get0 ''Bearer token123''" "[]" "Some ?user"]
  from I1 c a have run: "snd (BasicAuth decodeString0 ?store ''api''
               recording_handler writer0 (get0 ''basic dXNlcjpwdw=='') [])
       = [(get0 ''basic dXNlcjpwdw=='')
            \<lparr>Context := (Context (get0 ''basic dXNlcjpwdw==''))(UserContextKey \<mapsto> Some ?user)\<rparr>]"
    by (simp add: recording_handler_def)
  from I1 have get: "GetUser (Context ((get0 ''basic dXNlcjpwdw=='')
            \<lparr>Context := (Context (get0 ''basic dXNlcjpwdw==''))(UserContextKey \<mapsto> Some ?user)\<rparr>))
        = Some ?user"
    by blast
  from run get have users: "map (\<lambda>r. GetUser (Context r))
        (snd (BasicAuth decodeString0 ?store ''api''
               recording_handler writer0 (get0 ''basic dXNlcjpwdw=='') []))
       = [Some ?user]"
    by simp
  from I2 n have deny: "BasicAuth decodeString0 ?store ''api''
        recording_handler writer0 (get0 ''Bearer token123'') []
       = (requireAuth writer0 ''api'', [])"
    by simp
  from I2 s have ch: "status (requireAuth writer0 ''api'') = Some 401"
    "header (requireAuth writer0 ''api'') ''WWW-Authenticate'' = Some ''Basic realm=\"api\"''"
    by simp_all
  from s c a users n deny ch show ?thesis by blast
qed

end
